theory Spec2Isabelle
  imports Main
begin

text \<open>
  A model of the server of the code analyzer: the job store (\<open>server/storage.ts\<close>), the
  schemas (\<open>shared/schema.ts\<close>), the routes \<open>POST /api/analyze\<close> and
  \<open>POST /api/callback\<close> (\<open>server/routes.ts\<close>) and the analysis pipeline
  (\<open>server/analyzer.ts\<close>). The pipeline follows the version of the analyzer that has
  \<open>retryWithBackoff\<close> and the local Python tools; the other version in the repository is
  the same code with a single provider call per file, no local tools and no test for a
  missing provider key. Asynchronous functions are modelled by what they compute; what
  they read from outside (clock, UUIDs, files, tools, provider) is an argument. For the
  JSON report the serializer and the parser of the runtime are written out.
\<close>

section \<open>Values of type any\<close>

text \<open>
  The job store keeps \<open>results\<close> as \<open>z.any()\<close>, and the callback route stores whatever
  JSON value the request body carried. Such values are modelled as JSON trees. An object
  is the list of its own properties (keys distinct, as in every JavaScript object);
  numbers are integers, since no code path below looks at a number beyond testing it
  against zero.
\<close>

datatype json =
    JNull
  | JBool bool
  | JNum int
  | JStr string
  | JArr "json list"
  | JObj "(string \<times> json) list"

text \<open>Property read \<open>v.k\<close> on a non-null value: \<open>None\<close> is \<open>undefined\<close>.\<close>

fun jget :: "json \<Rightarrow> string \<Rightarrow> json option" where
  "jget (JObj kvs) k = map_of kvs k"
| "jget _ k = None"

section \<open>shared/schema.ts\<close>

datatype job_status = Pending | Processing | Completed | Failed

text \<open>
  \<open>createdAt\<close> and \<open>updatedAt\<close> hold \<open>new Date().toISOString()\<close>: the clock reading in
  milliseconds, rendered in a fixed-width format. The model keeps the millisecond count.
\<close>

record AnalysisJob =
  jobId :: string
  status :: job_status
  createdAt :: nat
  updatedAt :: nat
  repoUrl :: "string option"
  analysisMode :: string
  results :: "json option"

record InsertAnalysisJob =
  ins_repoUrl :: "string option"
  ins_analysisMode :: string

record CallbackPayload =
  callback_secret :: string
  request_id :: string
  cb_status :: string
  cb_results :: "json option"

text \<open>
  \<open>callbackPayloadSchema.safeParse(req.body)\<close>: three required strings and
  \<open>results: z.any()\<close>, which accepts every value and also a body without the key.
\<close>

definition callbackPayloadSchema :: "json \<Rightarrow> CallbackPayload option" where
  "callbackPayloadSchema body =
     (case body of
        JObj kvs \<Rightarrow>
          (case (map_of kvs ''callback_secret'', map_of kvs ''request_id'', map_of kvs ''status'') of
             (Some (JStr s), Some (JStr r), Some (JStr st)) \<Rightarrow>
               Some \<lparr>callback_secret = s, request_id = r, cb_status = st,
                     cb_results = map_of kvs ''results''\<rparr>
           | _ \<Rightarrow> None)
      | _ \<Rightarrow> None)"

section \<open>server/storage.ts: MemStorage\<close>

record MemStorage =
  jobs :: "string \<rightharpoonup> AnalysisJob"

definition emptyStorage :: MemStorage where
  "emptyStorage = \<lparr>jobs = Map.empty\<rparr>"

text \<open>
  \<open>createJob\<close> draws a UUID and reads the clock; both come from the environment and are
  arguments here. The new record replaces whatever the map held under the same id.
\<close>

definition createJob :: "string \<Rightarrow> nat \<Rightarrow> InsertAnalysisJob \<Rightarrow> MemStorage \<Rightarrow> AnalysisJob \<times> MemStorage" where
  "createJob uuid now data st =
     (let job = \<lparr>jobId = ''req-'' @ take 8 uuid, status = Pending, createdAt = now,
                 updatedAt = now, repoUrl = ins_repoUrl data,
                 analysisMode = ins_analysisMode data, results = None\<rparr>
      in (job, st\<lparr>jobs := (jobs st)(jobId job \<mapsto> job)\<rparr>))"

definition getJob :: "string \<Rightarrow> MemStorage \<Rightarrow> AnalysisJob option" where
  "getJob i st = jobs st i"

text \<open>The optional argument \<open>results\<close> is \<open>None\<close> when it is omitted or \<open>undefined\<close>.\<close>

definition updateJobStatus ::
  "nat \<Rightarrow> string \<Rightarrow> job_status \<Rightarrow> json option \<Rightarrow> MemStorage \<Rightarrow> AnalysisJob option \<times> MemStorage" where
  "updateJobStatus now i s res st =
     (case jobs st i of
        None \<Rightarrow> (None, st)
      | Some job \<Rightarrow>
          (let updatedJob = job\<lparr>status := s, updatedAt := now,
                                 results := (if res \<noteq> None then res else results job)\<rparr>
           in (Some updatedJob, st\<lparr>jobs := (jobs st)(i \<mapsto> updatedJob)\<rparr>)))"

section \<open>server/analyzer.ts: string helpers\<close>

definition nl :: char where
  "nl = CHR 0x0A"

text \<open>
  White space as \<open>String.prototype.trim\<close> removes it. A string of the model is a list
  of code units below 256; of the white space and line terminators of the language,
  U+0009 to U+000D, U+0020 and U+00A0 lie in that range.
\<close>

definition is_space :: "char \<Rightarrow> bool" where
  "is_space c = (c \<in> {CHR 0x09, CHR 0x0A, CHR 0x0B, CHR 0x0C, CHR 0x0D, CHR '' '', CHR 0xA0})"

definition trim :: "string \<Rightarrow> string" where
  "trim s = rev (dropWhile is_space (rev (dropWhile is_space s)))"

text \<open>The class \<open>\w\<close>.\<close>

definition is_word :: "char \<Rightarrow> bool" where
  "is_word c = (c \<in> set ''abcdefghijklmnopqrstuvwxyzABCDEFGHIJKLMNOPQRSTUVWXYZ0123456789_'')"

text \<open>
  \<open>s.replace(/pat\n?/g, '')\<close> for a literal, non-empty \<open>pat\<close>: every occurrence of
  \<open>pat\<close>, with the newline after it when there is one, is removed, left to right.
\<close>

function (sequential) remove_all :: "string \<Rightarrow> string \<Rightarrow> string" where
  "remove_all pat [] = []"
| "remove_all pat (c # cs) =
     (if pat \<noteq> [] \<and> take (length pat) (c # cs) = pat
      then (let r = drop (length pat) (c # cs)
            in remove_all pat (if r \<noteq> [] \<and> hd r = nl then tl r else r))
      else c # remove_all pat cs)"
  by pat_completeness auto
termination
  by (relation "measure (\<lambda>(p, s). length s)") (auto simp: Let_def)

text \<open>\<open>responseText.replace(/```json\n?/g, '').replace(/```\n?/g, '').trim()\<close>\<close>

definition clean_response :: "string \<Rightarrow> string" where
  "clean_response responseText = trim (remove_all ''```'' (remove_all ''```json'' responseText))"

text \<open>\<open>s.replace(/^```[\w]*\n?/g, '')\<close>: without the \<open>m\<close> flag \<open>^\<close> is the start of the text.\<close>

definition strip_open_fence :: "string \<Rightarrow> string" where
  "strip_open_fence s =
     (if take 3 s = ''```''
      then (let r = dropWhile is_word (drop 3 s)
            in if r \<noteq> [] \<and> hd r = nl then tl r else r)
      else s)"

text \<open>\<open>s.replace(/\n?```$/g, '')\<close>: \<open>$\<close> is the end of the text.\<close>

definition strip_close_fence :: "string \<Rightarrow> string" where
  "strip_close_fence s =
     (if 3 \<le> length s \<and> drop (length s - 3) s = ''```''
      then (let r = take (length s - 3) s
            in if r \<noteq> [] \<and> last r = nl then butlast r else r)
      else s)"

definition clean_refactored :: "string \<Rightarrow> string" where
  "clean_refactored refactoredCode = trim (strip_close_fence (strip_open_fence refactoredCode))"

text \<open>\<open>s.includes(pat)\<close>\<close>

fun includes_str :: "string \<Rightarrow> string \<Rightarrow> bool" where
  "includes_str [] pat = (pat = [])"
| "includes_str (c # cs) pat = (take (length pat) (c # cs) = pat \<or> includes_str cs pat)"

text \<open>\<open>s.split('\n')\<close>\<close>

fun split_lines :: "string \<Rightarrow> string list" where
  "split_lines [] = [Nil]"
| "split_lines (c # cs) =
     (if c = nl then [] # split_lines cs
      else (case split_lines cs of l # ls \<Rightarrow> (c # l) # ls | [] \<Rightarrow> [c # Nil]))"

section \<open>server/analyzer.ts: data\<close>

text \<open>
  An issue as it exists at run time. The interface types \<open>line\<close> as a number and
  \<open>message\<close>, \<open>rule\<close>, \<open>suggestion\<close> as strings, but the values read from a parsed
  provider reply or from tool output are stored unchecked, so these fields are JSON
  values here. \<open>severity\<close> is a string; that it is one of the three levels is a property
  of the code that builds issues, proved below.
\<close>

record Issue =
  severity :: string
  i_file :: string
  line :: json
  message :: json
  rule :: json
  suggestion :: "json option"

record RefactoredFile =
  rf_file :: string
  original :: string
  refactored :: string

record issues_count =
  critical :: nat
  major :: nat
  minor :: nat

record summary =
  languages :: "string list"
  total_files_analyzed :: nat
  issues_count :: issues_count

record AnalysisResult =
  res_request_id :: string
  res_status :: string
  summary :: summary
  issues :: "Issue list"
  patches :: "json list"
  refactoredFiles :: "RefactoredFile list"

text \<open>The JavaScript truth value of a value that is not \<open>undefined\<close>.\<close>

fun truthy :: "json \<Rightarrow> bool" where
  "truthy JNull = False"
| "truthy (JBool b) = b"
| "truthy (JNum n) = (n \<noteq> 0)"
| "truthy (JStr s) = (s \<noteq> [])"
| "truthy (JArr _) = True"
| "truthy (JObj _) = True"

text \<open>\<open>a || b\<close> where \<open>a\<close> may be \<open>undefined\<close> and \<open>b\<close> is a value.\<close>

definition or_else :: "json option \<Rightarrow> json \<Rightarrow> json" where
  "or_else a b = (case a of Some v \<Rightarrow> if truthy v then v else b | None \<Rightarrow> b)"

section \<open>server/analyzer.ts: the outside world of one pipeline run\<close>

text \<open>What a call threw: an error object with its \<open>status\<close> property, or \<open>undefined\<close>.\<close>

datatype thrown = Err (err_status: "int option") | Undefined

text \<open>
  The provider's reply: \<open>response.text\<close> and
  \<open>response.candidates[0]?.content?.parts?.[0]?.text\<close>, each absent or a string.
\<close>

record gen_response =
  resp_text :: "string option"
  resp_candidate_text :: "string option"

text \<open>
  Everything the pipeline reads from outside. \<open>generateContent n\<close> is the outcome of the
  \<open>n\<close>-th call to the provider during the run (the prompt is not modelled: the provider
  may answer each call in any way). \<open>JSON_parse\<close>, \<open>ToString\<close> and \<open>pyflakes_match\<close> are
  the language's own functions. \<open>ToString\<close> is the conversion made by a template
  literal: the argument \<open>None\<close> is \<open>undefined\<close>, and the result \<open>None\<close> is a conversion
  that throws, as it does for an object whose \<open>toString\<close> and \<open>valueOf\<close> give no
  primitive value. \<open>pyflakes_match l\<close> is \<open>l.match(/:(\d+):?\s*(.+)/)\<close>, given
  as \<open>parseInt(match[1], 10)\<close> and \<open>match[2]\<close>. \<open>pylint f\<close> and \<open>pyflakes f\<close> are the
  output of the tool on file \<open>f\<close>, \<open>None\<close> when running it failed. Files are named
  by their path relative to the workspace.
\<close>

record env =
  ai :: bool
  generateContent :: "nat \<Rightarrow> int option + gen_response"
  extractZip :: "string \<Rightarrow> bool"
  cloneRepo :: "string \<Rightarrow> bool"
  findFiles :: "string list \<Rightarrow> string list"
  readFile :: "string \<Rightarrow> string option"
  JSON_parse :: "string \<Rightarrow> json option"
  ToString :: "json option \<Rightarrow> string option"
  pylint :: "string \<Rightarrow> string option"
  pyflakes :: "string \<Rightarrow> string option"
  pyflakes_match :: "string \<Rightarrow> (nat \<times> string) option"

text \<open>What a run changes outside: the provider calls made and the delays waited, in order.\<close>

record world =
  calls :: nat
  slept :: "nat list"

definition world0 :: world where
  "world0 = \<lparr>calls = 0, slept = []\<rparr>"

section \<open>server/analyzer.ts: retryWithBackoff\<close>

text \<open>The \<open>for\<close> loop of \<open>retryWithBackoff\<close> from index \<open>i\<close> on; delays are in milliseconds.\<close>

function retry_loop ::
  "(world \<Rightarrow> (thrown + 'a) \<times> world) \<Rightarrow> nat \<Rightarrow> nat \<Rightarrow> nat \<Rightarrow> thrown \<Rightarrow> world
     \<Rightarrow> (thrown + 'a) \<times> world" where
  "retry_loop fn maxRetries baseDelay i lastError w =
     (if i < maxRetries then
        (case fn w of
           (Inr v, w1) \<Rightarrow> (Inr v, w1)
         | (Inl e, w1) \<Rightarrow>
             if err_status e = Some 429 \<and> i < maxRetries - 1
             then retry_loop fn maxRetries baseDelay (i + 1) e
                    (w1\<lparr>slept := slept w1 @ [baseDelay * 2 ^ i]\<rparr>)
             else (Inl e, w1))
      else (Inl lastError, w))"
  by pat_completeness auto
termination
  by (relation "measure (\<lambda>(fn, m, b, i, e, w). m - i)") auto

declare retry_loop.simps [simp del]

definition retryWithBackoff ::
  "(world \<Rightarrow> (thrown + 'a) \<times> world) \<Rightarrow> nat \<Rightarrow> nat \<Rightarrow> world \<Rightarrow> (thrown + 'a) \<times> world" where
  "retryWithBackoff fn maxRetries baseDelay w = retry_loop fn maxRetries baseDelay 0 Undefined w"

text \<open>One \<open>ai.models.generateContent\<close> call.\<close>

definition call_provider :: "env \<Rightarrow> world \<Rightarrow> (thrown + gen_response) \<times> world" where
  "call_provider e w =
     (case generateContent e (calls w) of
        Inl st \<Rightarrow> (Inl (Err st), w\<lparr>calls := calls w + 1\<rparr>)
      | Inr r \<Rightarrow> (Inr r, w\<lparr>calls := calls w + 1\<rparr>))"

text \<open>The text taken from a reply: \<open>response.text\<close> if truthy, else the candidate's text if truthy.\<close>

definition response_text :: "gen_response \<Rightarrow> string option" where
  "response_text r =
     (case resp_text r of
        Some (c # cs) \<Rightarrow> Some (c # cs)
      | _ \<Rightarrow> (case resp_candidate_text r of
                Some (c # cs) \<Rightarrow> Some (c # cs)
              | _ \<Rightarrow> None))"

section \<open>server/analyzer.ts: analysis with the provider\<close>

text \<open>The object built for one element of the parsed reply (the element is not \<open>null\<close>).\<close>

definition gemini_issue :: "string \<Rightarrow> string \<Rightarrow> json \<Rightarrow> Issue" where
  "gemini_issue relativePath language issue =
     \<lparr>severity = (case jget issue ''severity'' of
                    Some (JStr s) \<Rightarrow>
                      if s = ''critical'' \<or> s = ''major'' \<or> s = ''minor'' then s else ''minor''
                  | _ \<Rightarrow> ''minor''),
      i_file = relativePath,
      line = (case jget issue ''line'' of Some (JNum n) \<Rightarrow> JNum n | _ \<Rightarrow> JNum 1),
      message = or_else (jget issue ''message'') (JStr ''Unknown issue''),
      rule = or_else (jget issue ''rule'') (JStr (language @ ''/gemini-detected'')),
      suggestion = Some (or_else (jget issue ''suggestion'') (JStr []))\<rparr>"

text \<open>
  \<open>analyzeFileWithGemini\<close>. Reading a property of a \<open>null\<close> element throws inside
  \<open>map\<close>; the inner \<open>catch\<close> then gives up the whole reply.
\<close>

definition analyzeFileWithGemini ::
  "env \<Rightarrow> string \<Rightarrow> string \<Rightarrow> string \<Rightarrow> world \<Rightarrow> Issue list \<times> world" where
  "analyzeFileWithGemini e fileContent relativePath language w =
     (if \<not> ai e then ([], w)
      else
        (case retryWithBackoff (call_provider e) 3 2000 w of
           (Inl err, w1) \<Rightarrow> ([], w1)
         | (Inr response, w1) \<Rightarrow>
             (case response_text response of
                None \<Rightarrow> ([], w1)
              | Some responseText \<Rightarrow>
                  (case JSON_parse e (clean_response responseText) of
                     Some (JArr parsedIssues) \<Rightarrow>
                       if JNull \<in> set parsedIssues then ([], w1)
                       else (map (gemini_issue relativePath language) parsedIssues, w1)
                   | _ \<Rightarrow> ([], w1)))))"

fun analyzeFilesWithGemini :: "env \<Rightarrow> string list \<Rightarrow> string \<Rightarrow> world \<Rightarrow> Issue list \<times> world" where
  "analyzeFilesWithGemini e [] language w = ([], w)"
| "analyzeFilesWithGemini e (f # files) language w =
     (case readFile e f of
        None \<Rightarrow> analyzeFilesWithGemini e files language w
      | Some content \<Rightarrow>
          (let (found, w1) = analyzeFileWithGemini e content f language w;
               (rest, w2) = analyzeFilesWithGemini e files language w1
           in (found @ rest, w2)))"

section \<open>server/analyzer.ts: analysis with the local tools\<close>

text \<open>
  \<open>for (const issue of pylintIssues)\<close> runs over the elements of an array or the
  characters of a string; any other parsed value is not iterable and throws.
\<close>

definition iterate :: "json \<Rightarrow> json list option" where
  "iterate v = (case v of JArr xs \<Rightarrow> Some xs | JStr s \<Rightarrow> Some (map (\<lambda>c. JStr [c]) s) | _ \<Rightarrow> None)"

text \<open>
  The object pushed for one element. The two template literals are evaluated last, in
  this order; when one of them throws, no object is made.
\<close>

definition pylint_issue :: "env \<Rightarrow> string \<Rightarrow> json \<Rightarrow> Issue option" where
  "pylint_issue e relativePath issue =
     (case ToString e (Some (or_else (jget issue ''symbol'')
                               (or_else (jget issue ''message-id'') (JStr ''unknown'')))) of
        None \<Rightarrow> None
      | Some name \<Rightarrow>
          (case ToString e (jget issue ''type'') of
             None \<Rightarrow> None
           | Some ty \<Rightarrow>
               Some \<lparr>severity = (if jget issue ''type'' = Some (JStr ''error'')
                                      \<or> jget issue ''type'' = Some (JStr ''fatal'')
                                   then ''critical''
                                   else if jget issue ''type'' = Some (JStr ''warning'') then ''major''
                                   else ''minor''),
                     i_file = relativePath,
                     line = or_else (jget issue ''line'') (JNum 1),
                     message = or_else (jget issue ''message'') (JStr ''Unknown issue''),
                     rule = JStr (''python/pylint-'' @ name),
                     suggestion = Some (JStr (''Fix the '' @ ty @ '' issue''))\<rparr>))"

text \<open>
  The body of the loop pushes one issue per element. A \<open>null\<close> element throws, and so
  does a template literal whose conversion throws; the \<open>catch\<close> around the loop then
  ends it and keeps what was pushed before.
\<close>

fun pylint_push :: "env \<Rightarrow> string \<Rightarrow> json list \<Rightarrow> Issue list" where
  "pylint_push e relativePath [] = []"
| "pylint_push e relativePath (issue # rest) =
     (if issue = JNull then []
      else (case pylint_issue e relativePath issue of
              None \<Rightarrow> []
            | Some i \<Rightarrow> i # pylint_push e relativePath rest))"

definition pylint_file :: "env \<Rightarrow> string \<Rightarrow> Issue list" where
  "pylint_file e f =
     (case pylint e f of
        None \<Rightarrow> []
      | Some stdout \<Rightarrow>
          if trim stdout = [] then []
          else (case JSON_parse e stdout of
                  None \<Rightarrow> []
                | Some pylintIssues \<Rightarrow>
                    (case iterate pylintIssues of
                       None \<Rightarrow> []
                     | Some xs \<Rightarrow> pylint_push e f xs)))"

definition analyzePythonWithPylint :: "env \<Rightarrow> string list \<Rightarrow> Issue list" where
  "analyzePythonWithPylint e files = concat (map (pylint_file e) files)"

definition pyflakes_issue :: "string \<Rightarrow> nat \<times> string \<Rightarrow> Issue" where
  "pyflakes_issue relativePath m =
     (let lineNum = (if fst m = 0 then 1 else fst m);
          msg = trim (snd m)
      in \<lparr>severity = (if includes_str msg ''undefined'' \<or> includes_str msg ''syntax'' then ''critical''
                       else if includes_str msg ''imported but unused'' \<or> includes_str msg ''redefinition''
                       then ''major''
                       else ''minor''),
           i_file = relativePath,
           line = JNum (int lineNum),
           message = JStr msg,
           rule = JStr ''python/pyflakes'',
           suggestion = Some (JStr ''Review and fix the issue'')\<rparr>)"

definition pyflakes_file :: "env \<Rightarrow> string \<Rightarrow> Issue list" where
  "pyflakes_file e f =
     (case pyflakes e f of
        None \<Rightarrow> []
      | Some output \<Rightarrow>
          concat (map (\<lambda>l. case pyflakes_match e l of
                              None \<Rightarrow> []
                            | Some m \<Rightarrow> [pyflakes_issue f m])
                      (filter (\<lambda>l. trim l \<noteq> []) (split_lines output))))"

definition analyzePythonWithPyflakes :: "env \<Rightarrow> string list \<Rightarrow> Issue list" where
  "analyzePythonWithPyflakes e files = concat (map (pyflakes_file e) files)"

text \<open>The key \<open>`${issue.file}:${issue.line}:${issue.message}`\<close>; \<open>None\<close> when it throws.\<close>

definition issue_key :: "env \<Rightarrow> Issue \<Rightarrow> string option" where
  "issue_key e i =
     (case ToString e (Some (line i)) of
        None \<Rightarrow> None
      | Some l \<Rightarrow>
          (case ToString e (Some (message i)) of
             None \<Rightarrow> None
           | Some m \<Rightarrow> Some (i_file i @ '':'' @ l @ '':'' @ m)))"

text \<open>
  The loop over \<open>[...pylintIssues, ...pyflakesIssues]\<close> with the set \<open>seenKeys\<close>. It
  stands in no \<open>try\<close>: a key that throws ends \<open>analyzePythonFiles\<close> with that error.
\<close>

fun dedupe :: "env \<Rightarrow> string list \<Rightarrow> Issue list \<Rightarrow> Issue list option" where
  "dedupe e seenKeys [] = Some []"
| "dedupe e seenKeys (i # rest) =
     (case issue_key e i of
        None \<Rightarrow> None
      | Some key \<Rightarrow>
          if key \<in> set seenKeys then dedupe e seenKeys rest
          else (case dedupe e (key # seenKeys) rest of
                  None \<Rightarrow> None
                | Some kept \<Rightarrow> Some (i # kept)))"

definition analyzePythonFiles ::
  "env \<Rightarrow> string list \<Rightarrow> world \<Rightarrow> (thrown + Issue list) \<times> world" where
  "analyzePythonFiles e files w =
     (let (found, w1) = (if ai e then analyzeFilesWithGemini e files ''python'' w else ([], w));
          geminiWorked = (ai e \<and> length found > 0)
      in if \<not> geminiWorked
         then (case dedupe e [] (analyzePythonWithPylint e files @ analyzePythonWithPyflakes e files) of
                 None \<Rightarrow> (Inl (Err None), w1)
               | Some kept \<Rightarrow> (Inr (found @ kept), w1))
         else (Inr found, w1))"

definition analyzeJavaScriptFiles :: "env \<Rightarrow> string list \<Rightarrow> world \<Rightarrow> Issue list \<times> world" where
  "analyzeJavaScriptFiles e files w = analyzeFilesWithGemini e files ''javascript'' w"

definition analyzeTypeScriptFiles :: "env \<Rightarrow> string list \<Rightarrow> world \<Rightarrow> Issue list \<times> world" where
  "analyzeTypeScriptFiles e files w = analyzeFilesWithGemini e files ''typescript'' w"

section \<open>server/analyzer.ts: refactoring\<close>

text \<open>\<open>lines.join('\n')\<close>\<close>

fun join_lines :: "string list \<Rightarrow> string" where
  "join_lines [] = []"
| "join_lines [l] = l"
| "join_lines (l # l' # ls) = l @ nl # join_lines (l' # ls)"

text \<open>
  The lines \<open>`- Line ${i.line}: ${i.message} (${i.severity})`\<close> made by \<open>map\<close> over the
  issues of the file; \<open>None\<close> when a conversion throws.
\<close>

fun summary_lines :: "env \<Rightarrow> Issue list \<Rightarrow> string list option" where
  "summary_lines e [] = Some []"
| "summary_lines e (i # rest) =
     (case ToString e (Some (line i)) of
        None \<Rightarrow> None
      | Some l \<Rightarrow>
          (case ToString e (Some (message i)) of
             None \<Rightarrow> None
           | Some m \<Rightarrow>
               (case summary_lines e rest of
                  None \<Rightarrow> None
                | Some ls \<Rightarrow> Some ((''- Line '' @ l @ '': '' @ m @ '' ('' @ severity i @ '')'') # ls))))"

definition issuesSummary :: "env \<Rightarrow> Issue list \<Rightarrow> string \<Rightarrow> string option" where
  "issuesSummary e found relativePath =
     (let fileIssues = filter (\<lambda>i. i_file i = relativePath) found
      in if length fileIssues > 0
         then map_option join_lines (summary_lines e fileIssues)
         else Some ''No specific issues detected'')"

text \<open>
  \<open>refactorFileWithGemini\<close>. Without a provider the content is returned at once. The
  summary of the file's issues is built before the \<open>try\<close>, so a conversion that throws
  there makes the function throw (\<open>Inl\<close>). The prompt made of the summary, the path and
  the content is text only, and the provider of the model does not read it.
\<close>

definition refactorFileWithGemini ::
  "env \<Rightarrow> string \<Rightarrow> Issue list \<Rightarrow> string \<Rightarrow> world \<Rightarrow> (thrown + string) \<times> world" where
  "refactorFileWithGemini e fileContent found relativePath w =
     (if \<not> ai e then (Inr fileContent, w)
      else
        (case issuesSummary e found relativePath of
           None \<Rightarrow> (Inl (Err None), w)
         | Some summary_text \<Rightarrow>
             (case retryWithBackoff (call_provider e) 3 2000 w of
                (Inl err, w1) \<Rightarrow> (Inr fileContent, w1)
              | (Inr response, w1) \<Rightarrow>
                  (case response_text response of
                     None \<Rightarrow> (Inr fileContent, w1)
                   | Some refactoredCode \<Rightarrow> (Inr (clean_refactored refactoredCode), w1)))))"

text \<open>
  \<open>refactorFiles\<close>. The \<open>try\<close> in the loop covers the read and the call, so a file
  that cannot be read and a file whose call throws both get no record.
\<close>

fun refactorFiles :: "env \<Rightarrow> string list \<Rightarrow> Issue list \<Rightarrow> world \<Rightarrow> RefactoredFile list \<times> world" where
  "refactorFiles e [] found w = ([], w)"
| "refactorFiles e (f # files) found w =
     (case readFile e f of
        None \<Rightarrow> refactorFiles e files found w
      | Some content \<Rightarrow>
          (case refactorFileWithGemini e content found f w of
             (Inl err, w1) \<Rightarrow> refactorFiles e files found w1
           | (Inr refactoredContent, w1) \<Rightarrow>
               (let (rest, w2) = refactorFiles e files found w1
                in (\<lparr>rf_file = f, original = content, refactored = refactoredContent\<rparr> # rest, w2))))"

section \<open>server/analyzer.ts: analyzeCode\<close>

text \<open>
  The workspace preparation: an uploaded buffer is extracted; otherwise a non-empty URL
  is cloned; otherwise the function throws. \<open>False\<close> is a throw. An error thrown by
  the analysis of the Python files leaves \<open>analyzeCode\<close> as it is thrown.
\<close>

definition prepare_workspace :: "env \<Rightarrow> string option \<Rightarrow> string option \<Rightarrow> bool" where
  "prepare_workspace e zipBuffer repoUrl' =
     (case zipBuffer of
        Some z \<Rightarrow> extractZip e z
      | None \<Rightarrow> (case repoUrl' of
                  Some (c # cs) \<Rightarrow> cloneRepo e (c # cs)
                | _ \<Rightarrow> False))"

definition analyzeCode ::
  "env \<Rightarrow> string \<Rightarrow> string option \<Rightarrow> string option \<Rightarrow> string \<Rightarrow> thrown + AnalysisResult" where
  "analyzeCode e requestId zipBuffer repoUrl' analysisMode' =
     (if \<not> prepare_workspace e zipBuffer repoUrl' then Inl (Err None)
      else
        (let pythonFiles = findFiles e [''.py''];
             jsFiles = findFiles e [''.js'', ''.jsx'', ''.mjs''];
             tsFiles = findFiles e [''.ts'', ''.tsx''];
             langs = (if length pythonFiles > 0 then [''python''] else [])
                   @ (if length jsFiles > 0 then [''javascript''] else [])
                   @ (if length tsFiles > 0 then [''typescript''] else []);
             (pythonResult, w1) = (if length pythonFiles > 0 then analyzePythonFiles e pythonFiles world0
                                   else (Inr [], world0))
         in case pythonResult of
              Inl err \<Rightarrow> Inl err
            | Inr pythonIssues \<Rightarrow>
                (let (jsIssues, w2) = (if length jsFiles > 0 then analyzeJavaScriptFiles e jsFiles w1
                                       else ([], w1));
                     (tsIssues, w3) = (if length tsFiles > 0 then analyzeTypeScriptFiles e tsFiles w2
                                       else ([], w2));
                     combined = pythonIssues @ jsIssues @ tsIssues;
                     allIssues = (if analysisMode' = ''quick''
                                  then filter (\<lambda>i. severity i = ''critical'' \<or> severity i = ''major'') combined
                                  else combined);
                     issuesCount = \<lparr>critical = length (filter (\<lambda>i. severity i = ''critical'') allIssues),
                                    major = length (filter (\<lambda>i. severity i = ''major'') allIssues),
                                    minor = length (filter (\<lambda>i. severity i = ''minor'') allIssues)\<rparr>;
                     allFiles = pythonFiles @ jsFiles @ tsFiles;
                     (refactored_files, w4) = refactorFiles e allFiles allIssues w3
                 in Inr \<lparr>res_request_id = requestId,
                         res_status = ''completed'',
                         summary = \<lparr>languages = langs,
                                     total_files_analyzed =
                                       length pythonFiles + length jsFiles + length tsFiles,
                                     issues_count = issuesCount\<rparr>,
                         issues = allIssues,
                         patches = [],
                         refactoredFiles = refactored_files\<rparr>)))"

section \<open>A result object as the value kept in the job store\<close>

definition json_of_Issue :: "Issue \<Rightarrow> json" where
  "json_of_Issue i =
     JObj ([(''severity'', JStr (severity i)), (''file'', JStr (i_file i)), (''line'', line i),
            (''message'', message i), (''rule'', rule i)]
           @ (case suggestion i of None \<Rightarrow> [] | Some s \<Rightarrow> [(''suggestion'', s)]))"

definition json_of_RefactoredFile :: "RefactoredFile \<Rightarrow> json" where
  "json_of_RefactoredFile r =
     JObj [(''file'', JStr (rf_file r)), (''original'', JStr (original r)),
           (''refactored'', JStr (refactored r))]"

definition json_of_AnalysisResult :: "AnalysisResult \<Rightarrow> json" where
  "json_of_AnalysisResult r =
     JObj [(''request_id'', JStr (res_request_id r)),
           (''status'', JStr (res_status r)),
           (''summary'',
              JObj [(''languages'', JArr (map JStr (languages (summary r)))),
                    (''total_files_analyzed'', JNum (int (total_files_analyzed (summary r)))),
                    (''issues_count'',
                       JObj [(''critical'', JNum (int (critical (issues_count (summary r))))),
                             (''major'', JNum (int (major (issues_count (summary r))))),
                             (''minor'', JNum (int (minor (issues_count (summary r)))))])]),
           (''issues'', JArr (map json_of_Issue (issues r))),
           (''patches'', JArr (patches r)),
           (''refactoredFiles'', JArr (map json_of_RefactoredFile (refactoredFiles r)))]"

section \<open>server/analyzer.ts: generateJSON\<close>

text \<open>The double quote and the backslash.\<close>

definition dq :: char where
  "dq = CHR 0x22"

definition bs :: char where
  "bs = CHR 0x5C"

text \<open>
  Modelled from the spec: the decimal digits of a number in a JSON text. The runtime's
  number printer and reader are not code of the repository.
\<close>

definition is_digit :: "char \<Rightarrow> bool" where
  "is_digit c = (48 \<le> (of_char c :: nat) \<and> (of_char c :: nat) \<le> 57)"

definition digit_val :: "char \<Rightarrow> nat" where
  "digit_val c = of_char c - 48"

definition digit_char :: "nat \<Rightarrow> char" where
  "digit_char d = char_of (48 + d)"

text \<open>
  Modelled from the spec: the decimal digits of a non-negative integer, as
  \<open>Number.prototype.toString\<close> writes an integer of magnitude below \<open>10^21\<close>.
\<close>

function dec :: "int \<Rightarrow> string" where
  "dec n = (if n < 10 then [digit_char (nat n)] else dec (n div 10) @ [digit_char (nat (n mod 10))])"
  by pat_completeness auto
termination
  by (relation "measure nat") auto

declare dec.simps [simp del]

text \<open>Modelled from the spec: the integer that a run of decimal digits denotes.\<close>

definition digits_val :: "string \<Rightarrow> int" where
  "digits_val ds = foldl (\<lambda>a c. 10 * a + int (digit_val c)) 0 ds"

text \<open>Modelled from the spec: a number of the document, a minus sign before a negative one.\<close>

definition ser_num :: "int \<Rightarrow> string" where
  "ser_num n = (if n < 0 then CHR ''-'' # dec (- n) else dec n)"

text \<open>
  Modelled from the spec: the hexadecimal digits of an escape by code unit (a backslash,
  the letter u and four digits). The serializer writes them in lower case, the parser
  reads both cases.
\<close>

definition hex_char :: "nat \<Rightarrow> char" where
  "hex_char d = (if d < 10 then char_of (48 + d) else char_of (87 + d))"

definition hex_val :: "char \<Rightarrow> nat option" where
  "hex_val c =
     (let n = (of_char c :: nat)
      in if 48 \<le> n \<and> n \<le> 57 then Some (n - 48)
         else if 97 \<le> n \<and> n \<le> 102 then Some (n - 87)
         else if 65 \<le> n \<and> n \<le> 70 then Some (n - 55)
         else None)"

definition hex4 :: "char \<Rightarrow> char \<Rightarrow> char \<Rightarrow> char \<Rightarrow> nat option" where
  "hex4 a b c d =
     (case (hex_val a, hex_val b, hex_val c, hex_val d) of
        (Some x, Some y, Some z, Some u) \<Rightarrow> Some (((x * 16 + y) * 16 + z) * 16 + u)
      | _ \<Rightarrow> None)"

text \<open>
  Modelled from the spec: \<open>QuoteJSONString\<close> of the language standard, which is what
  the runtime's \<open>JSON.stringify\<close> does to every string and property name: the quote and
  the backslash are written after a backslash; backspace, form feed, line feed, carriage
  return and tab are written as a backslash and the letter b, f, n, r or t; the other
  control characters below U+0020 are escaped by code unit; every other character is
  written as it is. A string of the model is a list of 8-bit characters, so no surrogate
  occurs.
\<close>

definition escape_char :: "char \<Rightarrow> string" where
  "escape_char c =
     (if c = dq then [bs, dq]
      else if c = bs then [bs, bs]
      else if c = CHR 0x08 then [bs, CHR ''b'']
      else if c = CHR 0x0C then [bs, CHR ''f'']
      else if c = CHR 0x0A then [bs, CHR ''n'']
      else if c = CHR 0x0D then [bs, CHR ''r'']
      else if c = CHR 0x09 then [bs, CHR ''t'']
      else if (of_char c :: nat) < 32
      then [bs, CHR ''u'', CHR ''0'', CHR ''0'', hex_char (of_char c div 16), hex_char (of_char c mod 16)]
      else [c])"

definition quote :: "string \<Rightarrow> string" where
  "quote s = dq # concat (map escape_char s) @ [dq]"

text \<open>
  Modelled from the spec: the string grammar of \<open>JSON.parse\<close>. \<open>parse_chars\<close> reads the
  characters after an opening quote up to the closing one and returns the string and the
  text after it; a raw control character, an unknown escape and an unterminated string
  are syntax errors (\<open>None\<close>). An escape by code unit above U+00FF denotes a character
  that the strings of the model do not have and is refused too.
\<close>

definition unescape :: "char \<Rightarrow> char option" where
  "unescape d =
     (if d = dq then Some dq
      else if d = bs then Some bs
      else if d = CHR ''/'' then Some (CHR ''/'')
      else if d = CHR ''b'' then Some (CHR 0x08)
      else if d = CHR ''f'' then Some (CHR 0x0C)
      else if d = CHR ''n'' then Some (CHR 0x0A)
      else if d = CHR ''r'' then Some (CHR 0x0D)
      else if d = CHR ''t'' then Some (CHR 0x09)
      else None)"

fun parse_chars :: "string \<Rightarrow> (string \<times> string) option" where
  "parse_chars [] = None"
| "parse_chars (c # cs) =
     (if c = dq then Some ([], cs)
      else if c = bs then
        (case cs of
           [] \<Rightarrow> None
         | d # ds \<Rightarrow>
             if d = CHR ''u'' then
               (case ds of
                  h1 # h2 # h3 # h4 # r \<Rightarrow>
                    (case hex4 h1 h2 h3 h4 of
                       None \<Rightarrow> None
                     | Some n \<Rightarrow>
                         if n < 256
                         then (case parse_chars r of
                                 None \<Rightarrow> None
                               | Some (s, rest) \<Rightarrow> Some (char_of n # s, rest))
                         else None)
                | _ \<Rightarrow> None)
             else
               (case unescape d of
                  None \<Rightarrow> None
                | Some ch \<Rightarrow>
                    (case parse_chars ds of
                       None \<Rightarrow> None
                     | Some (s, rest) \<Rightarrow> Some (ch # s, rest))))
      else if (of_char c :: nat) < 32 then None
      else (case parse_chars cs of
              None \<Rightarrow> None
            | Some (s, rest) \<Rightarrow> Some (c # s, rest)))"

text \<open>
  Modelled from the spec: the number grammar of \<open>JSON.parse\<close>, for the numbers of the
  model. A number of the model is an integer; those from \<open>-max_safe\<close> to \<open>max_safe\<close>
  (\<open>Number.MAX_SAFE_INTEGER\<close>) are exactly the integers that the runtime holds without
  rounding and writes in plain decimal. A text with a fraction, an exponent or a larger
  integer denotes a number outside the model and is refused, as are a missing digit and
  a leading zero, which the grammar forbids.
\<close>

definition max_safe :: int where
  "max_safe = 9007199254740991"

definition parse_number :: "string \<Rightarrow> (json \<times> string) option" where
  "parse_number s =
     (let neg = (s \<noteq> [] \<and> hd s = CHR ''-'');
          s1 = (if neg then tl s else s);
          ds = takeWhile is_digit s1;
          rest = dropWhile is_digit s1
      in if ds = [] then None
         else if hd ds = CHR ''0'' \<and> length ds > 1 then None
         else if rest \<noteq> [] \<and> hd rest \<in> {CHR ''.'', CHR ''e'', CHR ''E''} then None
         else if digits_val ds > max_safe then None
         else Some (JNum (if neg then - digits_val ds else digits_val ds), rest))"

text \<open>Modelled from the spec: the four whitespace characters of the JSON grammar.\<close>

definition is_ws :: "char \<Rightarrow> bool" where
  "is_ws c = (c \<in> {CHR '' '', CHR 0x09, CHR 0x0A, CHR 0x0D})"

definition skip_ws :: "string \<Rightarrow> string" where
  "skip_ws s = dropWhile is_ws s"

text \<open>
  Modelled from the spec: the order of the properties of an object of the language. An
  object is modelled by the list of its properties in the order in which the runtime
  enumerates them, which is the order \<open>JSON.stringify\<close> writes them in: the names that
  are array indices (canonical decimal numerals below \<open>2^32 - 1\<close>) first, in ascending
  numeric order, then the other names in the order of their creation. \<open>obj_put\<close> is the
  definition of a property by \<open>JSON.parse\<close>: a name that the object already has keeps
  its place and takes the new value, a new index goes before the first name it precedes,
  any other new name goes last.
\<close>

definition index_of :: "string \<Rightarrow> int option" where
  "index_of k =
     (if k \<noteq> [] \<and> list_all is_digit k \<and> (length k = 1 \<or> hd k \<noteq> CHR ''0'')
         \<and> digits_val k < 4294967295
      then Some (digits_val k) else None)"

definition goes_before :: "string \<Rightarrow> string \<Rightarrow> bool" where
  "goes_before k k' =
     (case index_of k of
        None \<Rightarrow> False
      | Some a \<Rightarrow> (case index_of k' of None \<Rightarrow> True | Some b \<Rightarrow> a < b))"

fun obj_put :: "(string \<times> json) list \<Rightarrow> string \<Rightarrow> json \<Rightarrow> (string \<times> json) list" where
  "obj_put [] k v = [(k, v)]"
| "obj_put ((k', v') # kvs) k v =
     (if k' = k then (k', v) # kvs
      else if goes_before k k' then (k, v) # (k', v') # kvs
      else (k', v') # obj_put kvs k v)"

text \<open>
  Modelled from the spec: \<open>JSON.stringify(value, null, 2)\<close>, the runtime's serializer
  with an indentation of two spaces, which is not code of the repository; it is the
  canonical pretty-printed serialization of the specification. \<open>ser k v\<close> is the text
  of \<open>v\<close> at indentation \<open>k\<close>: an empty array is \<open>[]\<close> and an empty object \<open>{}\<close>; the
  elements of any other array or object are written one per line, indented by two more
  spaces and separated by a comma at the end of the line, and the closing bracket stands
  on a line of its own at indentation \<open>k\<close>; a property is its quoted name, a colon, a
  space and its value. The values of the model have no \<open>undefined\<close>, function or
  \<open>toJSON\<close> member, so nothing is left out or replaced.
\<close>

definition indent :: "nat \<Rightarrow> string" where
  "indent k = replicate k (CHR '' '')"

fun ser :: "nat \<Rightarrow> json \<Rightarrow> string"
and ser_elems :: "nat \<Rightarrow> json list \<Rightarrow> string"
and ser_members :: "nat \<Rightarrow> (string \<times> json) list \<Rightarrow> string" where
  "ser k JNull = ''null''"
| "ser k (JBool b) = (if b then ''true'' else ''false'')"
| "ser k (JNum n) = ser_num n"
| "ser k (JStr s) = quote s"
| "ser k (JArr []) = ''[]''"
| "ser k (JArr (x # xs)) =
     CHR ''['' # nl # indent (k + 2) @ ser_elems (k + 2) (x # xs) @ nl # indent k @ '']''"
| "ser k (JObj []) = ''{}''"
| "ser k (JObj (m # ms)) =
     CHR ''{'' # nl # indent (k + 2) @ ser_members (k + 2) (m # ms) @ nl # indent k @ ''}''"
| "ser_elems k [] = []"
| "ser_elems k [x] = ser k x"
| "ser_elems k (x # y # xs) = ser k x @ CHR '','' # nl # indent k @ ser_elems k (y # xs)"
| "ser_members k [] = []"
| "ser_members k [(key, v)] = quote key @ '': '' @ ser k v"
| "ser_members k ((key, v) # m # ms) =
     quote key @ '': '' @ ser k v @ CHR '','' # nl # indent k @ ser_members k (m # ms)"

definition JSON_stringify :: "json \<Rightarrow> string" where
  "JSON_stringify v = ser 0 v"

text \<open>
  Modelled from the spec: \<open>JSON.parse\<close>, the runtime's parser, which is not code of the
  repository. \<open>parse_value\<close> reads one value from the front of a text and returns it with
  the rest of the text; \<open>parse_elements\<close> and \<open>parse_members\<close> read the elements of an
  array and the properties of an object after the first bracket, up to and including the
  closing one. Whitespace is allowed around every token. The first argument bounds the
  number of nested calls; \<open>JSON_parse_text\<close> gives twice the length of the text, which
  is enough for every text, since at most two calls are nested before a character is
  read. The result \<open>None\<close> is the \<open>SyntaxError\<close> of the runtime (or a number or character
  outside the model, see above). The pipeline above takes the parser of the provider's
  and the tools' output as a parameter of the environment instead, so that what is proved
  of it holds for whatever that parser returns.
\<close>

fun parse_value :: "nat \<Rightarrow> string \<Rightarrow> (json \<times> string) option"
and parse_elements :: "nat \<Rightarrow> json list \<Rightarrow> string \<Rightarrow> (json list \<times> string) option"
and parse_members :: "nat \<Rightarrow> (string \<times> json) list \<Rightarrow> string \<Rightarrow> ((string \<times> json) list \<times> string) option" where
  "parse_value 0 s = None"
| "parse_value (Suc n) s =
     (case skip_ws s of
        [] \<Rightarrow> None
      | c # cs \<Rightarrow>
          if c = CHR ''{'' then
            (case skip_ws cs of
               [] \<Rightarrow> None
             | d # ds \<Rightarrow>
                 if d = CHR ''}'' then Some (JObj [], ds)
                 else (case parse_members n [] (d # ds) of
                         None \<Rightarrow> None
                       | Some (ms, rest) \<Rightarrow> Some (JObj ms, rest)))
          else if c = CHR ''['' then
            (case skip_ws cs of
               [] \<Rightarrow> None
             | d # ds \<Rightarrow>
                 if d = CHR '']'' then Some (JArr [], ds)
                 else (case parse_elements n [] (d # ds) of
                         None \<Rightarrow> None
                       | Some (xs, rest) \<Rightarrow> Some (JArr xs, rest)))
          else if c = dq then
            (case parse_chars cs of
               None \<Rightarrow> None
             | Some (str, rest) \<Rightarrow> Some (JStr str, rest))
          else if take 4 (c # cs) = ''null'' then Some (JNull, drop 4 (c # cs))
          else if take 4 (c # cs) = ''true'' then Some (JBool True, drop 4 (c # cs))
          else if take 5 (c # cs) = ''false'' then Some (JBool False, drop 5 (c # cs))
          else parse_number (c # cs))"
| "parse_elements 0 acc s = None"
| "parse_elements (Suc n) acc s =
     (case parse_value n s of
        None \<Rightarrow> None
      | Some (v, r) \<Rightarrow>
          (case skip_ws r of
             [] \<Rightarrow> None
           | c # cs \<Rightarrow>
               if c = CHR '','' then parse_elements n (acc @ [v]) cs
               else if c = CHR '']'' then Some (acc @ [v], cs)
               else None))"
| "parse_members 0 acc s = None"
| "parse_members (Suc n) acc s =
     (case skip_ws s of
        [] \<Rightarrow> None
      | c # cs \<Rightarrow>
          if c = dq then
            (case parse_chars cs of
               None \<Rightarrow> None
             | Some (key, r) \<Rightarrow>
                 (case skip_ws r of
                    [] \<Rightarrow> None
                  | c1 # r1 \<Rightarrow>
                      if c1 = CHR '':'' then
                        (case parse_value n r1 of
                           None \<Rightarrow> None
                         | Some (v, r2) \<Rightarrow>
                             (case skip_ws r2 of
                                [] \<Rightarrow> None
                              | c3 # r3 \<Rightarrow>
                                  if c3 = CHR '','' then parse_members n (obj_put acc key v) r3
                                  else if c3 = CHR ''}'' then Some (obj_put acc key v, r3)
                                  else None))
                      else None))
          else None)"

declare parse_value.simps [simp del] parse_elements.simps [simp del] parse_members.simps [simp del]

definition JSON_parse_text :: "string \<Rightarrow> json option" where
  "JSON_parse_text s =
     (case parse_value (2 * length s) s of
        None \<Rightarrow> None
      | Some (v, rest) \<Rightarrow> if skip_ws rest = [] then Some v else None)"


section \<open>server/routes.ts\<close>

record config =
  N8N_WEBHOOK :: string
  CALLBACK_SECRET :: string

record response =
  code :: nat
  body :: json

definition reply :: "nat \<Rightarrow> string \<Rightarrow> response" where
  "reply c m = \<lparr>code = c, body = JObj [(''message'', JStr m)]\<rparr>"

text \<open>
  The multipart request after multer: the text fields of \<open>req.body\<close> (absent or a
  string) and \<open>req.file\<close>, present when a \<open>code_zip\<close> part was uploaded, here its buffer.
\<close>

record analyze_request =
  analysis_mode :: "string option"
  repo_url :: "string option"
  code_zip :: "string option"

text \<open>
  \<open>analyzeRequestSchema.safeParse\<close>. The URL test of \<open>z.string().url()\<close> belongs to the
  validation library and is the parameter \<open>isUrl\<close>.
\<close>

definition analyzeRequestSchema ::
  "(string \<Rightarrow> bool) \<Rightarrow> analyze_request \<Rightarrow> (string \<times> string option) option" where
  "analyzeRequestSchema isUrl req =
     (let mode = (case analysis_mode req of
                    None \<Rightarrow> Some ''standard''
                  | Some m \<Rightarrow> if m \<in> {''quick'', ''standard'', ''deep''} then Some m else None);
          url = (case repo_url req of
                   None \<Rightarrow> Some None
                 | Some u \<Rightarrow> if isUrl u \<or> u = [] then Some (Some u) else None)
      in case (mode, url) of
           (Some m, Some u) \<Rightarrow> Some (m, u)
         | _ \<Rightarrow> None)"

text \<open>What the handler hands to the pipeline it starts: the arguments of \<open>analyzeCode\<close>.\<close>

record launch =
  l_requestId :: string
  l_zipBuffer :: "string option"
  l_repoUrl :: "string option"
  l_analysisMode :: string

text \<open>
  The \<open>POST /api/analyze\<close> handler up to its response. \<open>uuid\<close> is the UUID drawn by
  \<open>createJob\<close>, \<open>t1\<close> and \<open>t2\<close> the clock readings of \<open>createJob\<close> and of the
  \<open>updateJobStatus\<close> that follows. With a webhook configured the request is forwarded
  (failures of the forwarding are only logged) and no pipeline starts. The list of field
  errors in the body of the first 400 reply is left out. Nothing in the handler's own
  steps throws, so the reply with status 500 does not occur in the model.
\<close>

definition analyze_handler ::
  "(string \<Rightarrow> bool) \<Rightarrow> config \<Rightarrow> string \<Rightarrow> nat \<Rightarrow> nat \<Rightarrow> analyze_request \<Rightarrow> MemStorage
     \<Rightarrow> response \<times> MemStorage \<times> launch option" where
  "analyze_handler isUrl cfg uuid t1 t2 req st =
     (case analyzeRequestSchema isUrl req of
        None \<Rightarrow> (reply 400 ''Invalid request'', st, None)
      | Some (mode, parsed_url) \<Rightarrow>
          (let repoUrl' = (case parsed_url of
                             Some u \<Rightarrow> if length u > 0 then Some u else None
                           | None \<Rightarrow> None);
               file = code_zip req
           in if file = None \<and> repoUrl' = None
              then (reply 400 ''Either code_zip file or repo_url is required'', st, None)
              else
                (let (job, st1) = createJob uuid t1 \<lparr>ins_repoUrl = repoUrl', ins_analysisMode = mode\<rparr> st;
                     st2 = snd (updateJobStatus t2 (jobId job) Processing None st1);
                     started = (if N8N_WEBHOOK cfg \<noteq> [] then None
                                else Some \<lparr>l_requestId = jobId job, l_zipBuffer = file,
                                           l_repoUrl = repoUrl', l_analysisMode = mode\<rparr>)
                 in (\<lparr>code = 200, body = JObj [(''request_id'', JStr (jobId job))]\<rparr>, st2, started))))"

text \<open>The result object written by the \<open>catch\<close> branch of the started pipeline.\<close>

definition failed_result :: "string \<Rightarrow> json" where
  "failed_result i =
     JObj [(''request_id'', JStr i),
           (''status'', JStr ''failed''),
           (''summary'', JObj [(''languages'', JArr []),
                               (''total_files_analyzed'', JNum 0),
                               (''issues_count'', JObj [(''critical'', JNum 0), (''major'', JNum 0),
                                                        (''minor'', JNum 0)])]),
           (''issues'', JArr []),
           (''patches'', JArr []),
           (''refactoredFiles'', JArr [])]"

text \<open>
  The end of a started pipeline: \<open>analyzeCode\<close> ran in the world \<open>e\<close> and either
  returned a result or threw; \<open>t\<close> is the clock reading of the update.
\<close>

definition pipeline_finish :: "nat \<Rightarrow> launch \<Rightarrow> env \<Rightarrow> MemStorage \<Rightarrow> MemStorage" where
  "pipeline_finish t l e st =
     (case analyzeCode e (l_requestId l) (l_zipBuffer l) (l_repoUrl l) (l_analysisMode l) of
        Inr analysisResult \<Rightarrow>
          snd (updateJobStatus t (l_requestId l) Completed (Some (json_of_AnalysisResult analysisResult)) st)
      | Inl _ \<Rightarrow>
          snd (updateJobStatus t (l_requestId l) Failed (Some (failed_result (l_requestId l))) st))"

text \<open>The \<open>POST /api/callback\<close> handler; \<open>t\<close> is the clock reading of the update.\<close>

definition callback_handler :: "config \<Rightarrow> nat \<Rightarrow> json \<Rightarrow> MemStorage \<Rightarrow> response \<times> MemStorage" where
  "callback_handler cfg t raw st =
     (case callbackPayloadSchema raw of
        None \<Rightarrow> (reply 400 ''Invalid callback payload'', st)
      | Some p \<Rightarrow>
          if callback_secret p \<noteq> CALLBACK_SECRET cfg
          then (reply 401 ''Invalid callback secret'', st)
          else
            (case getJob (request_id p) st of
               None \<Rightarrow> (reply 404 ''Job not found'', st)
             | Some job \<Rightarrow>
                 (let newStatus = (if cb_status p = ''completed'' then Completed
                                   else if cb_status p = ''failed'' then Failed
                                   else status job)
                  in (\<lparr>code = 200, body = JObj [(''success'', JBool True)]\<rparr>,
                      snd (updateJobStatus t (request_id p) newStatus (cb_results p) st)))))"

section \<open>The server as a transition system\<close>

text \<open>
  The job store together with the pipelines that were started and have not ended yet.
  An event is one request served or one pipeline ending; the clock readings, the UUID
  and the outside world of a pipeline run come with the event.
\<close>

record server =
  store :: MemStorage
  running :: "launch list"

datatype event =
    Analyze string nat nat analyze_request
  | Finish launch env nat
  | Callback nat json

definition step :: "(string \<Rightarrow> bool) \<Rightarrow> config \<Rightarrow> event \<Rightarrow> server \<Rightarrow> server" where
  "step isUrl cfg ev s =
     (case ev of
        Analyze uuid t1 t2 req \<Rightarrow>
          (case analyze_handler isUrl cfg uuid t1 t2 req (store s) of
             (r, st', started) \<Rightarrow>
               \<lparr>store = st',
                running = (case started of None \<Rightarrow> running s | Some l \<Rightarrow> running s @ [l])\<rparr>)
      | Finish l e t \<Rightarrow>
          if l \<in> set (running s)
          then \<lparr>store = pipeline_finish t l e (store s), running = remove1 l (running s)\<rparr>
          else s
      | Callback t raw \<Rightarrow> \<lparr>store = snd (callback_handler cfg t raw (store s)), running = running s\<rparr>)"

fun run :: "(string \<Rightarrow> bool) \<Rightarrow> config \<Rightarrow> event list \<Rightarrow> server \<Rightarrow> server" where
  "run isUrl cfg [] s = s"
| "run isUrl cfg (ev # evs) s = run isUrl cfg evs (step isUrl cfg ev s)"

text \<open>The ids that the submissions among the events may give to new jobs.\<close>

fun new_ids :: "event list \<Rightarrow> string list" where
  "new_ids [] = []"
| "new_ids (Analyze uuid t1 t2 req # evs) = (''req-'' @ take 8 uuid) # new_ids evs"
| "new_ids (_ # evs) = new_ids evs"

section \<open>Properties\<close>

text \<open>The order pending, processing, then completed or failed.\<close>

fun rank :: "job_status \<Rightarrow> nat" where
  "rank Pending = 0"
| "rank Processing = 1"
| "rank Completed = 2"
| "rank Failed = 2"



text \<open>
  The issues of all languages as the per-language analyzers return them, in the order
  \<open>analyzeCode\<close> calls them (none when the analysis of the Python files throws). None of
  these functions is given the analysis mode.
\<close>

definition combined_issues :: "env \<Rightarrow> Issue list" where
  "combined_issues e =
     (let pythonFiles = findFiles e [''.py''];
          jsFiles = findFiles e [''.js'', ''.jsx'', ''.mjs''];
          tsFiles = findFiles e [''.ts'', ''.tsx''];
          (pythonResult, w1) = (if length pythonFiles > 0 then analyzePythonFiles e pythonFiles world0
                                else (Inr [], world0))
      in case pythonResult of
           Inl err \<Rightarrow> []
         | Inr pythonIssues \<Rightarrow>
             (let (jsIssues, w2) = (if length jsFiles > 0 then analyzeJavaScriptFiles e jsFiles w1
                                    else ([], w1));
                  (tsIssues, w3) = (if length tsFiles > 0 then analyzeTypeScriptFiles e tsFiles w2
                                    else ([], w2))
              in pythonIssues @ jsIssues @ tsIssues))"

definition valid_severity :: "Issue \<Rightarrow> bool" where
  "valid_severity i = (severity i = ''critical'' \<or> severity i = ''major'' \<or> severity i = ''minor'')"





section \<open>Concrete inputs\<close>

text \<open>
  A URL test that accepts one address only, the example of the README; the library's
  test accepts it too.
\<close>

definition sample_isUrl :: "string \<Rightarrow> bool" where
  "sample_isUrl u = (u = ''https://github.com/user/repo'')"

definition sample_cfg :: config where
  "sample_cfg = \<lparr>N8N_WEBHOOK = [], CALLBACK_SECRET = ''demo-secret''\<rparr>"

text \<open>
  A world with one Python file. The provider answers the first call with status 429 and
  every later call with a reply whose text parses to one critical and one minor issue.
\<close>

definition sample_reply :: gen_response where
  "sample_reply = \<lparr>resp_text = Some ''[...]'', resp_candidate_text = None\<rparr>"

definition sample_env :: env where
  "sample_env =
     \<lparr>ai = True,
      generateContent = (\<lambda>n. if n = 0 then Inl (Some 429) else Inr sample_reply),
      extractZip = (\<lambda>z. True),
      cloneRepo = (\<lambda>u. True),
      findFiles = (\<lambda>exts. if exts = [''.py''] then [''a.py''] else []),
      readFile = (\<lambda>f. Some ''x = 1''),
      JSON_parse = (\<lambda>s. Some (JArr [JObj [(''severity'', JStr ''critical''), (''line'', JNum 3)],
                                       JObj [(''severity'', JStr ''minor'')]])),
      ToString = (\<lambda>v. Some ''v''),
      pylint = (\<lambda>f. None),
      pyflakes = (\<lambda>f. None),
      pyflakes_match = (\<lambda>l. None)\<rparr>"

text \<open>The same world with a provider that always fails.\<close>

definition sample_env_failing :: env where
  "sample_env_failing = sample_env\<lparr>generateContent := (\<lambda>n. Inl (Some 500))\<rparr>"

text \<open>A world in which extracting the archive fails.\<close>

definition sample_env_bad_zip :: env where
  "sample_env_bad_zip = sample_env\<lparr>extractZip := (\<lambda>z. False)\<rparr>"

text \<open>A server with nothing stored, a submission of an archive, and the pipeline it starts.\<close>

definition server0 :: server where
  "server0 = \<lparr>store = emptyStorage, running = []\<rparr>"

definition sample_request :: analyze_request where
  "sample_request = \<lparr>analysis_mode = None, repo_url = None, code_zip = Some ''PK''\<rparr>"

definition sample_launch :: launch where
  "sample_launch = \<lparr>l_requestId = ''req-0123abcd'', l_zipBuffer = Some ''PK'', l_repoUrl = None,
                     l_analysisMode = ''standard''\<rparr>"

text \<open>A callback body with the right secret for that job, with or without \<open>results\<close>.\<close>

definition sample_callback :: "string \<Rightarrow> json option \<Rightarrow> json" where
  "sample_callback st res =
     JObj ([(''callback_secret'', JStr ''demo-secret''), (''request_id'', JStr ''req-0123abcd''),
            (''status'', JStr st)]
           @ (case res of None \<Rightarrow> [] | Some v \<Rightarrow> [(''results'', v)]))"

text \<open>The store after that submission, and after its pipeline has failed.\<close>

definition store1 :: MemStorage where
  "store1 = \<lparr>jobs = [''req-0123abcd'' \<mapsto>
          \<lparr>jobId = ''req-0123abcd'', status = Processing, createdAt = 5, updatedAt = 5,
           repoUrl = None, analysisMode = ''standard'', results = None\<rparr>]\<rparr>"

definition store2 :: MemStorage where
  "store2 = \<lparr>jobs = [''req-0123abcd'' \<mapsto>
          \<lparr>jobId = ''req-0123abcd'', status = Failed, createdAt = 5, updatedAt = 9,
           repoUrl = None, analysisMode = ''standard'',
           results = Some (failed_result ''req-0123abcd'')\<rparr>]\<rparr>"


section \<open>The job store and the routes\<close>

lemma updateJobStatus_jobs:
  "jobs (snd (updateJobStatus now i s res st)) k =
     (if k = i then (case jobs st i of None \<Rightarrow> None
                     | Some job \<Rightarrow> Some (job\<lparr>status := s, updatedAt := now,
                                   results := (if res \<noteq> None then res else results job)\<rparr>))
      else jobs st k)"
  by (simp add: updateJobStatus_def Let_def split: option.splits)

lemma analyze_handler_jobs:
  "k \<noteq> ''req-'' @ take 8 uuid \<Longrightarrow>
   jobs (fst (snd (analyze_handler isUrl cfg uuid t1 t2 req st))) k = jobs st k"
  by (simp add: analyze_handler_def createJob_def updateJobStatus_jobs Let_def
           split: option.splits prod.splits)

lemma step_Analyze_sample:
  "step sample_isUrl sample_cfg (Analyze ''0123abcd-ef'' 5 5 sample_request) server0 =
     \<lparr>store = store1, running = [sample_launch]\<rparr>"
  by (simp add: step_def server0_def analyze_handler_def analyzeRequestSchema_def sample_request_def
        sample_cfg_def createJob_def updateJobStatus_def emptyStorage_def sample_launch_def
        store1_def Let_def)

lemma analyzeCode_bad_zip:
  "analyzeCode sample_env_bad_zip i (Some z) u m = Inl (Err None)"
  by (simp add: analyzeCode_def prepare_workspace_def sample_env_bad_zip_def)

lemma run_sample_failed:
  "run sample_isUrl sample_cfg
     [Analyze ''0123abcd-ef'' 5 5 sample_request, Finish sample_launch sample_env_bad_zip 9] server0 =
     \<lparr>store = store2, running = []\<rparr>"
  by (simp add: step_Analyze_sample)
     (simp add: step_def pipeline_finish_def sample_launch_def analyzeCode_bad_zip updateJobStatus_def
        store1_def store2_def Let_def)

subsection \<open>Validation of a submission\<close>

text \<open>
  C1, as the code has it. A \<open>POST /api/analyze\<close> request that supplies neither a
  \<open>code_zip\<close> file nor a non-empty \<open>repo_url\<close> is answered with HTTP 400. The check
  comes before \<open>createJob\<close>: every request answered with 400 leaves the job store as it
  was and starts no pipeline. The handler asks for at least one of the two, not for
  exactly one: a request that supplies a file or a non-empty URL, or both, and whose
  fields pass the request schema is answered with HTTP 200, and its job is in the store,
  marked processing.
\<close>

theorem analyze_source_validation:
  assumes "analyze_handler isUrl cfg uuid t1 t2 req st = (r, st', started)"
  shows "(code_zip req = None \<and> (repo_url req = None \<or> repo_url req = Some []) \<longrightarrow> code r = 400)
       \<and> (code r = 400 \<longrightarrow> st' = st \<and> started = None)
       \<and> ((code_zip req \<noteq> None \<or> (\<exists>u. repo_url req = Some u \<and> u \<noteq> []))
              \<and> analyzeRequestSchema isUrl req \<noteq> None
            \<longrightarrow> code r = 200
                \<and> (\<exists>job. jobs st' (''req-'' @ take 8 uuid) = Some job \<and> status job = Processing))"
  using assms
  by (auto simp: analyze_handler_def analyzeRequestSchema_def reply_def createJob_def
        updateJobStatus_jobs Let_def
      split: option.splits if_splits prod.splits)

theorem analyze_source_validation_witness:
  "code (fst (analyze_handler sample_isUrl sample_cfg ''0123abcd-ef'' 5 6
        \<lparr>analysis_mode = Some ''quick'', repo_url = Some [], code_zip = None\<rparr> emptyStorage)) = 400
   \<and> fst (snd (analyze_handler sample_isUrl sample_cfg ''0123abcd-ef'' 5 6
        \<lparr>analysis_mode = Some ''quick'', repo_url = Some [], code_zip = None\<rparr> emptyStorage))
       = emptyStorage
   \<and> code (fst (analyze_handler sample_isUrl sample_cfg ''0123abcd-ef'' 5 6
        \<lparr>analysis_mode = Some ''quick'', repo_url = None, code_zip = Some ''PK''\<rparr> emptyStorage)) = 200"
proof -
  let ?neither = "\<lparr>analysis_mode = Some ''quick'', repo_url = Some [], code_zip = None\<rparr>"
  let ?archive = "\<lparr>analysis_mode = Some ''quick'', repo_url = None, code_zip = Some ''PK''\<rparr>"
  have a: "code_zip ?neither = None \<and> (repo_url ?neither = None \<or> repo_url ?neither = Some [])"
    by simp
  have b: "(code_zip ?archive \<noteq> None \<or> (\<exists>u. repo_url ?archive = Some u \<and> u \<noteq> []))
      \<and> analyzeRequestSchema sample_isUrl ?archive \<noteq> None"
    by (simp add: analyzeRequestSchema_def)
  have c: "analyze_handler sample_isUrl sample_cfg ''0123abcd-ef'' 5 6 ?neither emptyStorage
      = (fst (analyze_handler sample_isUrl sample_cfg ''0123abcd-ef'' 5 6 ?neither emptyStorage),
         fst (snd (analyze_handler sample_isUrl sample_cfg ''0123abcd-ef'' 5 6 ?neither emptyStorage)),
         snd (snd (analyze_handler sample_isUrl sample_cfg ''0123abcd-ef'' 5 6 ?neither emptyStorage)))"
    by simp
  have d: "analyze_handler sample_isUrl sample_cfg ''0123abcd-ef'' 5 6 ?archive emptyStorage
      = (fst (analyze_handler sample_isUrl sample_cfg ''0123abcd-ef'' 5 6 ?archive emptyStorage),
         fst (snd (analyze_handler sample_isUrl sample_cfg ''0123abcd-ef'' 5 6 ?archive emptyStorage)),
         snd (snd (analyze_handler sample_isUrl sample_cfg ''0123abcd-ef'' 5 6 ?archive emptyStorage)))"
    by simp
  from analyze_source_validation [OF c] a analyze_source_validation [OF d] b
  show ?thesis by blast
qed

text \<open>
  C1 as stated fails: a request with both an archive and a repository URL is answered
  with HTTP 200 and its job is in the store.
\<close>

theorem analyze_accepts_both_sources:
  "code (fst (analyze_handler sample_isUrl sample_cfg ''0123abcd-ef'' 5 6
        \<lparr>analysis_mode = None, repo_url = Some ''https://github.com/user/repo'', code_zip = Some ''PK''\<rparr>
        emptyStorage)) = 200
   \<and> getJob ''req-0123abcd'' (fst (snd (analyze_handler sample_isUrl sample_cfg ''0123abcd-ef'' 5 6
        \<lparr>analysis_mode = None, repo_url = Some ''https://github.com/user/repo'', code_zip = Some ''PK''\<rparr>
        emptyStorage))) \<noteq> None"
  by (simp add: analyze_handler_def analyzeRequestSchema_def sample_isUrl_def sample_cfg_def
        createJob_def updateJobStatus_def getJob_def emptyStorage_def Let_def)

subsection \<open>The order of statuses\<close>

lemma pipeline_finish_rank:
  assumes "jobs st k = Some j"
  shows "\<exists>j'. jobs (pipeline_finish t l e st) k = Some j' \<and> rank (status j) \<le> rank (status j')"
  using assms
  by (cases "status j") (auto simp: pipeline_finish_def updateJobStatus_jobs split: sum.splits)

lemma callback_handler_rank:
  assumes "jobs st k = Some j"
  shows "\<exists>j'. jobs (snd (callback_handler cfg t raw st)) k = Some j'
           \<and> rank (status j) \<le> rank (status j')"
  using assms
  by (cases "status j")
     (auto simp: callback_handler_def getJob_def updateJobStatus_jobs Let_def split: option.splits)

lemma step_rank:
  assumes "jobs (store s) k = Some j" and "k \<notin> set (new_ids [ev])"
  shows "\<exists>j'. jobs (store (step isUrl cfg ev s)) k = Some j' \<and> rank (status j) \<le> rank (status j')"
proof (cases ev)
  case (Analyze uuid t1 t2 req)
  with assms(2) have "k \<noteq> ''req-'' @ take 8 uuid" by simp
  then have "jobs (fst (snd (analyze_handler isUrl cfg uuid t1 t2 req (store s)))) k = Some j"
    using assms(1) by (simp add: analyze_handler_jobs)
  with Analyze show ?thesis
    by (auto simp: step_def split: prod.splits)
next
  case (Finish l e t)
  with pipeline_finish_rank [OF assms(1)] assms(1) show ?thesis
    by (auto simp: step_def)
next
  case (Callback t raw)
  with callback_handler_rank [OF assms(1)] show ?thesis
    by (simp add: step_def)
qed

lemma new_ids_Cons: "set (new_ids (ev # evs)) = set (new_ids [ev]) \<union> set (new_ids evs)"
  by (cases ev) auto

text \<open>
  C2, as the code has it. Through any sequence of submissions, pipeline ends and
  callbacks in which no submission draws the id of an existing job again, that job stays
  in the store and its status never moves backward in the order pending, processing,
  then completed or failed, whichever operation makes the update. Nothing makes completed
  or failed final.
\<close>

theorem status_never_regresses:
  assumes "jobs (store s) k = Some j" and "k \<notin> set (new_ids evs)"
  shows "\<exists>j'. jobs (store (run isUrl cfg evs s)) k = Some j' \<and> rank (status j) \<le> rank (status j')"
  using assms
proof (induction evs arbitrary: s j)
  case Nil
  then show ?case by simp
next
  case (Cons ev evs)
  from Cons.prems(2) have a: "k \<notin> set (new_ids [ev])" and b: "k \<notin> set (new_ids evs)"
    using new_ids_Cons [of ev evs] by auto
  from step_rank [OF Cons.prems(1) a]
  obtain j1 where j1: "jobs (store (step isUrl cfg ev s)) k = Some j1"
      "rank (status j) \<le> rank (status j1)"
    by blast
  from Cons.IH [OF j1(1) b] j1(2) show ?case
    by (auto intro: order_trans)
qed

theorem status_never_regresses_witness:
  "\<exists>j'. jobs (store (run sample_isUrl sample_cfg
            [Finish sample_launch sample_env_bad_zip 9,
             Callback 12 (sample_callback ''completed'' (Some (JObj []))),
             Analyze ''89abcdef-01'' 13 14 sample_request]
            \<lparr>store = store1, running = [sample_launch]\<rparr>)) ''req-0123abcd'' = Some j'
      \<and> rank Processing \<le> rank (status j')"
proof -
  have a: "jobs (store \<lparr>store = store1, running = [sample_launch]\<rparr>) ''req-0123abcd'' =
      Some \<lparr>jobId = ''req-0123abcd'', status = Processing, createdAt = 5, updatedAt = 5,
            repoUrl = None, analysisMode = ''standard'', results = None\<rparr>"
    by (simp add: store1_def)
  have b: "''req-0123abcd'' \<notin> set (new_ids [Finish sample_launch sample_env_bad_zip 9,
             Callback 12 (sample_callback ''completed'' (Some (JObj []))),
             Analyze ''89abcdef-01'' 13 14 sample_request])"
    by simp
  from status_never_regresses [OF a b] show ?thesis by simp
qed

text \<open>
  C2 as stated fails: a job that its pipeline has marked failed is set to completed by a
  callback that comes later.
\<close>

theorem terminal_status_changes:
  "map_option status (jobs (store (run sample_isUrl sample_cfg
      [Analyze ''0123abcd-ef'' 5 5 sample_request, Finish sample_launch sample_env_bad_zip 9]
      server0)) ''req-0123abcd'') = Some Failed
   \<and> map_option status (jobs (store (run sample_isUrl sample_cfg
      [Analyze ''0123abcd-ef'' 5 5 sample_request, Finish sample_launch sample_env_bad_zip 9,
       Callback 12 (sample_callback ''completed'' (Some (JObj [])))]
      server0)) ''req-0123abcd'') = Some Completed"
proof -
  have "run sample_isUrl sample_cfg
      [Analyze ''0123abcd-ef'' 5 5 sample_request, Finish sample_launch sample_env_bad_zip 9,
       Callback 12 (sample_callback ''completed'' (Some (JObj [])))] server0
    = step sample_isUrl sample_cfg (Callback 12 (sample_callback ''completed'' (Some (JObj []))))
       (run sample_isUrl sample_cfg
         [Analyze ''0123abcd-ef'' 5 5 sample_request, Finish sample_launch sample_env_bad_zip 9] server0)"
    by simp
  then show ?thesis
    unfolding run_sample_failed
    by (simp add: step_def callback_handler_def callbackPayloadSchema_def sample_callback_def
          sample_cfg_def getJob_def updateJobStatus_def store2_def Let_def)
qed

subsection \<open>The time of the last update\<close>

text \<open>
  C3, as the code has it. \<open>updateJobStatus\<close> sets \<open>updatedAt\<close> to the clock reading it
  takes. When that reading is not earlier than the job's previous \<open>updatedAt\<close>, the new
  value is not smaller than the previous one, and it is strictly greater exactly when the
  clock has moved past the previous value.
\<close>

theorem updatedAt_follows_clock:
  assumes "jobs st i = Some j" and "updatedAt j \<le> now"
  shows "\<exists>j'. updateJobStatus now i s res st = (Some j', st\<lparr>jobs := (jobs st)(i \<mapsto> j')\<rparr>)
           \<and> status j' = s \<and> updatedAt j' = now \<and> updatedAt j \<le> updatedAt j'
           \<and> (updatedAt j < updatedAt j' \<longleftrightarrow> updatedAt j < now)"
  using assms by (simp add: updateJobStatus_def Let_def)

theorem updatedAt_follows_clock_witness:
  "\<exists>j'. updateJobStatus 9 ''req-0123abcd'' Completed None store1
            = (Some j', store1\<lparr>jobs := (jobs store1)(''req-0123abcd'' \<mapsto> j')\<rparr>)
      \<and> status j' = Completed \<and> updatedAt j' = 9 \<and> (5::nat) < updatedAt j'"
proof -
  have a: "jobs store1 ''req-0123abcd'' =
      Some \<lparr>jobId = ''req-0123abcd'', status = Processing, createdAt = 5, updatedAt = 5,
            repoUrl = None, analysisMode = ''standard'', results = None\<rparr>"
    by (simp add: store1_def)
  have b: "updatedAt \<lparr>jobId = ''req-0123abcd'', status = Processing, createdAt = 5, updatedAt = 5,
            repoUrl = None, analysisMode = ''standard'', results = None\<rparr> \<le> 9"
    by simp
  from updatedAt_follows_clock [OF a b, of Completed None] show ?thesis by auto
qed

text \<open>
  C3 as stated fails: the submission handler creates a job and marks it processing at
  once; when both clock readings fall in the same millisecond the status changes and
  \<open>updatedAt\<close> stays equal.
\<close>

theorem updatedAt_not_strict:
  "(let (job, st1) = createJob ''0123abcd-ef'' 5
                       \<lparr>ins_repoUrl = None, ins_analysisMode = ''standard''\<rparr> emptyStorage;
        (updated, st2) = updateJobStatus 5 (jobId job) Processing None st1
    in map_option status updated = Some Processing \<and> status job = Pending
       \<and> map_option updatedAt updated = Some (updatedAt job))"
  by (simp add: createJob_def updateJobStatus_def emptyStorage_def Let_def)

subsection \<open>The results of a failed job\<close>





subsection \<open>A callback with another status\<close>




section \<open>The analyzer\<close>

subsection \<open>Retries of a provider call\<close>

lemma call_provider_calls: "calls (snd (call_provider e w)) = calls w + 1"
  and call_provider_slept: "slept (snd (call_provider e w)) = slept w"
  by (simp_all add: call_provider_def split: sum.splits)

lemma call_provider_result:
  "fst (call_provider e w) = (case generateContent e (calls w) of Inl st \<Rightarrow> Inl (Err st) | Inr v \<Rightarrow> Inr v)"
  by (simp add: call_provider_def split: sum.splits)

lemma retry_loop_provider:
  assumes "i < m" and "retry_loop (call_provider e) m b i le w = (r, w')"
  shows "\<exists>n. 1 \<le> n \<and> i + n \<le> m \<and> calls w' = calls w + n
          \<and> slept w' = slept w @ map (\<lambda>k. b * 2 ^ k) [i..<i + n - 1]
          \<and> (\<forall>k<n - 1. generateContent e (calls w + k) = Inl (Some 429))
          \<and> r = (case generateContent e (calls w + (n - 1)) of Inl st \<Rightarrow> Inl (Err st) | Inr v \<Rightarrow> Inr v)
          \<and> (generateContent e (calls w + (n - 1)) = Inl (Some 429) \<longrightarrow> i + n = m)"
  using assms
proof (induction "call_provider e" m b i le w arbitrary: r w' rule: retry_loop.induct)
  case (1 m b i le w)
  obtain o1 w1 where cp: "call_provider e w = (o1, w1)" by (cases "call_provider e w")
  have w1: "calls w1 = calls w + 1" "slept w1 = slept w"
    using call_provider_calls [of e w] call_provider_slept [of e w] cp by simp_all
  have o1: "o1 = (case generateContent e (calls w) of Inl st \<Rightarrow> Inl (Err st) | Inr v \<Rightarrow> Inr v)"
    using call_provider_result [of e w] cp by simp
  show ?case
  proof (cases "\<exists>x. o1 = Inl x \<and> err_status x = Some 429 \<and> i < m - 1")
    case False
    with "1.prems" cp have res: "r = o1" "w' = w1"
      by (auto simp: retry_loop.simps [of "call_provider e" m b i le w] split: sum.splits if_splits)
    have last: "generateContent e (calls w) = Inl (Some 429) \<longrightarrow> i + 1 = m"
      using False o1 "1.prems"(1) by (auto split: sum.splits)
    show ?thesis
      by (rule exI [of _ 1]) (use res w1 o1 last "1.prems"(1) in simp)
  next
    case True
    then obtain x where x: "o1 = Inl x" "err_status x = Some 429" "i < m - 1" by blast
    let ?w2 = "w1\<lparr>slept := slept w1 @ [b * 2 ^ i]\<rparr>"
    from "1.prems" cp x have rec: "retry_loop (call_provider e) m b (i + 1) x ?w2 = (r, w')"
      by (simp add: retry_loop.simps [of "call_provider e" m b i le w])
    from x(3) have lt: "i + 1 < m" by simp
    from "1.hyps" [OF "1.prems"(1) cp [symmetric] x(1) conjI [OF x(2) x(3)] lt rec]
    obtain n where n: "1 \<le> n" "i + 1 + n \<le> m" "calls w' = calls ?w2 + n"
      "slept w' = slept ?w2 @ map (\<lambda>k. b * 2 ^ k) [i + 1..<i + 1 + n - 1]"
      "\<forall>k<n - 1. generateContent e (calls ?w2 + k) = Inl (Some 429)"
      "r = (case generateContent e (calls ?w2 + (n - 1)) of Inl st \<Rightarrow> Inl (Err st) | Inr v \<Rightarrow> Inr v)"
      "generateContent e (calls ?w2 + (n - 1)) = Inl (Some 429) \<longrightarrow> i + 1 + n = m"
      by auto
    have g0: "generateContent e (calls w) = Inl (Some 429)"
      using o1 x by (auto split: sum.splits)
    have sl: "slept w' = slept w @ map (\<lambda>k. b * 2 ^ k) [i..<i + (n + 1) - 1]"
      using n(4) w1 n(1) by (simp add: upt_conv_Cons)
    have all: "\<forall>k<(n + 1) - 1. generateContent e (calls w + k) = Inl (Some 429)"
    proof (intro allI impI)
      fix k assume "k < (n + 1) - 1"
      show "generateContent e (calls w + k) = Inl (Some 429)"
      proof (cases k)
        case 0 with g0 show ?thesis by simp
      next
        case (Suc k')
        with \<open>k < (n + 1) - 1\<close> have "k' < n - 1" by simp
        with n(5) w1 Suc show ?thesis by simp
      qed
    qed
    have idx: "calls ?w2 + (n - 1) = calls w + ((n + 1) - 1)" using w1 n(1) by simp
    show ?thesis
      by (rule exI [of _ "n + 1"]) (use n w1 sl all idx in \<open>simp\<close>)
  qed
qed

lemma analyzeFileWithGemini_outcome:
  assumes "ai e" and "retryWithBackoff (call_provider e) 3 2000 w = (r, w1)"
  shows "snd (analyzeFileWithGemini e content path lang w) = w1
       \<and> ((\<exists>err. r = Inl err) \<longrightarrow> fst (analyzeFileWithGemini e content path lang w) = [])"
  using assms by (auto simp: analyzeFileWithGemini_def split: sum.splits option.splits json.splits)

lemma retry_sample_env:
  "retryWithBackoff (call_provider sample_env) 3 2000 world0 =
     (Inr sample_reply, \<lparr>calls = 2, slept = [2000]\<rparr>)"
  apply (simp add: retryWithBackoff_def)
  apply (subst retry_loop.simps)
  apply (simp add: call_provider_def sample_env_def world0_def)
  apply (subst retry_loop.simps)
  apply (simp add: call_provider_def)
  done

lemma analyzeFile_sample_env:
  "analyzeFileWithGemini sample_env ''x = 1'' ''a.py'' ''python'' world0 =
     ([\<lparr>severity = ''critical'', i_file = ''a.py'', line = JNum 3, message = JStr ''Unknown issue'',
        rule = JStr ''python/gemini-detected'', suggestion = Some (JStr [])\<rparr>,
       \<lparr>severity = ''minor'', i_file = ''a.py'', line = JNum 1, message = JStr ''Unknown issue'',
        rule = JStr ''python/gemini-detected'', suggestion = Some (JStr [])\<rparr>],
      \<lparr>calls = 2, slept = [2000]\<rparr>)"
  by (simp add: analyzeFileWithGemini_def retry_sample_env)
     (simp add: sample_env_def sample_reply_def response_text_def gemini_issue_def or_else_def)

text \<open>
  C7, as the code has it. With a provider configured, the provider call made for one file
  goes through \<open>retryWithBackoff\<close> with 3 attempts and a base delay of 2000 ms, the values
  the call sites pass (1000 ms is only the default of the helper). So: \<open>n\<close> calls are
  made, between 1 and 3; every call before the last one was answered with status 429; a
  call answered with 429 is followed by another one unless it was the third; the waits
  before the second and third call are 2000 ms and 4000 ms; and when the last call fails,
  with whatever error, the file yields no issues.
\<close>

theorem provider_call_retry:
  assumes "ai e" and "analyzeFileWithGemini e content path lang w = (found, w')"
  shows "\<exists>n. 1 \<le> n \<and> n \<le> 3 \<and> calls w' = calls w + n
          \<and> (\<forall>k<n - 1. generateContent e (calls w + k) = Inl (Some 429))
          \<and> (n < 3 \<longrightarrow> generateContent e (calls w + (n - 1)) \<noteq> Inl (Some 429))
          \<and> slept w' = slept w @ map (\<lambda>k. 2000 * 2 ^ k) [0..<n - 1]
          \<and> (\<forall>st. generateContent e (calls w + (n - 1)) = Inl st \<longrightarrow> found = [])"
proof -
  obtain r w1 where rw: "retryWithBackoff (call_provider e) 3 2000 w = (r, w1)"
    by (cases "retryWithBackoff (call_provider e) 3 2000 w")
  have "snd (analyzeFileWithGemini e content path lang w) = w1"
    and "(\<exists>err. r = Inl err) \<longrightarrow> fst (analyzeFileWithGemini e content path lang w) = []"
    using analyzeFileWithGemini_outcome [OF assms(1) rw, of content path lang] by blast+
  with assms(2) have w': "w' = w1" and ab: "(\<exists>err. r = Inl err) \<longrightarrow> found = []"
    by simp_all
  have loop: "retry_loop (call_provider e) 3 2000 0 Undefined w = (r, w1)"
    using rw by (simp only: retryWithBackoff_def)
  have lt: "(0::nat) < 3" by simp
  from retry_loop_provider [OF lt loop]
  obtain n where n1: "1 \<le> n" and n2: "0 + n \<le> 3" and n3: "calls w1 = calls w + n"
     and n4: "slept w1 = slept w @ map (\<lambda>k. 2000 * 2 ^ k) [0..<0 + n - 1]"
     and n5: "\<forall>k<n - 1. generateContent e (calls w + k) = Inl (Some 429)"
     and n6: "r = (case generateContent e (calls w + (n - 1)) of Inl st \<Rightarrow> Inl (Err st) | Inr v \<Rightarrow> Inr v)"
     and n7: "generateContent e (calls w + (n - 1)) = Inl (Some 429) \<longrightarrow> 0 + n = 3"
    by blast
  have c1: "\<forall>st. generateContent e (calls w + (n - 1)) = Inl st \<longrightarrow> found = []"
    using n6 ab by simp
  have c2: "n < 3 \<longrightarrow> generateContent e (calls w + (n - 1)) \<noteq> Inl (Some 429)"
    using n7 by auto
  have c3: "n \<le> 3" using n2 by simp
  have c4: "slept w' = slept w @ map (\<lambda>k. 2000 * 2 ^ k) [0..<n - 1]"
    using n4 w' by simp
  have c5: "calls w' = calls w + n" using n3 w' by simp
  from n1 c3 c5 n5 c2 c4 c1 show ?thesis by blast
qed

theorem provider_call_retry_witness:
  "\<exists>n. 1 \<le> n \<and> n \<le> 3 \<and> (2::nat) = 0 + n
      \<and> (\<forall>k<n - 1. generateContent sample_env (0 + k) = Inl (Some 429))
      \<and> [2000::nat] = [] @ map (\<lambda>k. 2000 * 2 ^ k) [0..<n - 1]"
proof -
  have a: "ai sample_env" by (simp add: sample_env_def)
  from provider_call_retry [OF a analyzeFile_sample_env] show ?thesis
    by (simp add: world0_def)
qed

text \<open>
  C7 as stated fails: after a first answer with status 429 the analysis of a file waits
  2000 ms before it calls again, not 1000 ms.
\<close>

theorem first_delay_is_two_seconds:
  "slept (snd (analyzeFileWithGemini sample_env ''x = 1'' ''a.py'' ''python'' world0)) = [2000]
   \<and> slept (snd (analyzeFileWithGemini sample_env ''x = 1'' ''a.py'' ''python'' world0)) \<noteq> [1000]"
  by (simp add: analyzeFile_sample_env)

subsection \<open>Refactoring falls back to the original\<close>

lemma refactorFiles_append:
  "refactorFiles e (xs @ ys) found w =
     (let (a, w1) = refactorFiles e xs found w;
          (b, w2) = refactorFiles e ys found w1
      in (a @ b, w2))"
proof (induction xs arbitrary: w)
  case Nil
  show ?case by (simp split: prod.splits)
next
  case (Cons x xs)
  show ?case
    by (simp add: Cons split: option.splits prod.splits sum.splits)
qed

lemma refactorFile_fallback:
  assumes "\<not> ai e \<or> (issuesSummary e found f \<noteq> None
             \<and> (\<exists>err. fst (retryWithBackoff (call_provider e) 3 2000 w) = Inl err))"
  shows "fst (refactorFileWithGemini e content found f w) = Inr content"
  using assms
  by (auto simp: refactorFileWithGemini_def split: prod.splits sum.splits option.splits)

lemma retry_failing_env:
  "retryWithBackoff (call_provider sample_env_failing) 3 2000 w =
     (Inl (Err (Some 500)), w\<lparr>calls := calls w + 1\<rparr>)"
  apply (simp add: retryWithBackoff_def)
  apply (subst retry_loop.simps)
  apply (simp add: call_provider_def sample_env_failing_def sample_env_def)
  done

lemma refactorFiles_failing_first:
  "refactorFiles sample_env_failing [''a.py''] [] world0 =
     ([\<lparr>rf_file = ''a.py'', original = ''x = 1'', refactored = ''x = 1''\<rparr>], \<lparr>calls = 1, slept = []\<rparr>)"
proof -
  have "readFile sample_env_failing ''a.py'' = Some ''x = 1''" "ai sample_env_failing"
    by (simp_all add: sample_env_failing_def sample_env_def)
  then show ?thesis
    by (simp add: refactorFileWithGemini_def issuesSummary_def retry_failing_env world0_def)
qed

lemma refactorFile_sample_first:
  "refactorFileWithGemini sample_env c [] p world0 = (Inr ''[...]'', \<lparr>calls = 2, slept = [2000]\<rparr>)"
proof -
  have "ai sample_env" by (simp add: sample_env_def)
  moreover have "clean_refactored ''[...]'' = ''[...]''"
    by (simp add: clean_refactored_def strip_open_fence_def strip_close_fence_def trim_def is_space_def)
  ultimately show ?thesis
    by (simp add: refactorFileWithGemini_def issuesSummary_def retry_sample_env sample_reply_def
          response_text_def)
qed

text \<open>
  C9, as the code has it. For every file the Refactorer processes, wherever it stands in
  the list of files: when no provider is configured, or the provider call for the file,
  retries included, ends in an error, the record made for the file has \<open>refactored\<close>
  equal to \<open>original\<close>, the content read. The records of the files before it and after
  it are what \<open>refactorFiles\<close> makes of those files.
\<close>

theorem refactor_failure_keeps_original:
  assumes "refactorFiles e before found w = (done, w1)"
    and "readFile e f = Some content"
    and "\<not> ai e \<or> (issuesSummary e found f \<noteq> None
           \<and> (\<exists>err. fst (retryWithBackoff (call_provider e) 3 2000 w1) = Inl err))"
  shows "\<exists>w2. fst (refactorFiles e (before @ f # after) found w)
           = done @ \<lparr>rf_file = f, original = content, refactored = content\<rparr>
               # fst (refactorFiles e after found w2)"
proof -
  obtain r w2 where rw: "refactorFileWithGemini e content found f w1 = (r, w2)"
    by (cases "refactorFileWithGemini e content found f w1")
  from refactorFile_fallback [OF assms(3), of content] rw have r: "r = Inr content" by simp
  have "fst (refactorFiles e (f # after) found w1)
          = \<lparr>rf_file = f, original = content, refactored = content\<rparr>
              # fst (refactorFiles e after found w2)"
    using assms(2) rw r by (simp split: prod.splits)
  then have "fst (refactorFiles e (before @ f # after) found w)
          = done @ \<lparr>rf_file = f, original = content, refactored = content\<rparr>
              # fst (refactorFiles e after found w2)"
    using assms(1) by (auto simp add: refactorFiles_append simp del: refactorFiles.simps split: prod.splits)
  then show ?thesis by blast
qed

theorem refactor_failure_keeps_original_witness:
  "fst (refactorFiles sample_env_failing [''a.py'', ''b.py''] [] world0)
     = [\<lparr>rf_file = ''a.py'', original = ''x = 1'', refactored = ''x = 1''\<rparr>,
        \<lparr>rf_file = ''b.py'', original = ''x = 1'', refactored = ''x = 1''\<rparr>]"
proof -
  have b: "readFile sample_env_failing ''b.py'' = Some ''x = 1''"
    by (simp add: sample_env_failing_def sample_env_def)
  have c: "\<not> ai sample_env_failing \<or> (issuesSummary sample_env_failing [] ''b.py'' \<noteq> None
           \<and> (\<exists>err. fst (retryWithBackoff (call_provider sample_env_failing) 3 2000
                  \<lparr>calls = 1, slept = []\<rparr>) = Inl err))"
    by (simp add: issuesSummary_def retry_failing_env)
  from refactor_failure_keeps_original [OF refactorFiles_failing_first b c, of "[]"]
  show ?thesis by simp
qed

text \<open>
  C9 as stated fails: a provider call that fails with status 429 is made again, and when
  the second call succeeds the record has the provider's code, not the original.
\<close>

theorem retried_call_changes_file:
  "generateContent sample_env (calls world0) = Inl (Some 429)
   \<and> fst (refactorFiles sample_env [''a.py''] [] world0)
       = [\<lparr>rf_file = ''a.py'', original = ''x = 1'', refactored = ''[...]''\<rparr>]
   \<and> ''[...]'' \<noteq> ''x = 1''"
proof -
  have "readFile sample_env ''a.py'' = Some ''x = 1''"
    "generateContent sample_env (calls world0) = Inl (Some 429)"
    by (simp_all add: sample_env_def world0_def)
  then show ?thesis by (simp add: refactorFile_sample_first)
qed

subsection \<open>Severities and counts\<close>

lemma valid_gemini_issue: "valid_severity (gemini_issue p l x)"
  by (simp add: valid_severity_def gemini_issue_def split: option.splits json.splits)

lemma valid_analyzeFileWithGemini:
  "\<forall>i\<in>set (fst (analyzeFileWithGemini e c p l w)). valid_severity i"
  by (auto simp: analyzeFileWithGemini_def valid_gemini_issue
           split: prod.splits sum.splits option.splits json.splits)

lemma valid_analyzeFilesWithGemini:
  "\<forall>i\<in>set (fst (analyzeFilesWithGemini e fs l w)). valid_severity i"
proof (induction fs arbitrary: w)
  case Nil
  then show ?case by simp
next
  case (Cons f fs)
  show ?case
  proof (cases "readFile e f")
    case None
    with Cons show ?thesis by simp
  next
    case (Some c)
    obtain a w1 where a: "analyzeFileWithGemini e c f l w = (a, w1)"
      by (cases "analyzeFileWithGemini e c f l w")
    obtain b w2 where b: "analyzeFilesWithGemini e fs l w1 = (b, w2)"
      by (cases "analyzeFilesWithGemini e fs l w1")
    from valid_analyzeFileWithGemini [of e c f l w] a have "\<forall>i\<in>set a. valid_severity i" by simp
    moreover from Cons [of w1] b have "\<forall>i\<in>set b. valid_severity i" by simp
    ultimately show ?thesis using Some a b by auto
  qed
qed

lemma valid_pylint_issue: "pylint_issue e p x = Some i \<Longrightarrow> valid_severity i"
  by (auto simp: valid_severity_def pylint_issue_def split: option.splits if_splits)

lemma valid_pylint_push: "\<forall>i\<in>set (pylint_push e p xs). valid_severity i"
  by (induction xs) (auto simp: valid_pylint_issue split: option.splits)

lemma valid_pylint: "\<forall>i\<in>set (analyzePythonWithPylint e fs). valid_severity i"
  by (auto simp: analyzePythonWithPylint_def pylint_file_def valid_pylint_push
           split: option.splits if_splits)

lemma valid_pyflakes_issue: "valid_severity (pyflakes_issue p m)"
  by (simp add: valid_severity_def pyflakes_issue_def Let_def)

lemma valid_pyflakes: "\<forall>i\<in>set (analyzePythonWithPyflakes e fs). valid_severity i"
  by (auto simp: analyzePythonWithPyflakes_def pyflakes_file_def valid_pyflakes_issue
           split: option.splits if_splits)

lemma set_dedupe: "dedupe e seen xs = Some kept \<Longrightarrow> set kept \<subseteq> set xs"
proof (induction xs arbitrary: seen kept)
  case Nil
  then show ?case by simp
next
  case (Cons x xs)
  then show ?case
    by (fastforce split: option.splits if_splits)
qed

lemma valid_analyzePythonFiles:
  assumes "fst (analyzePythonFiles e fs w) = Inr found"
  shows "\<forall>i\<in>set found. valid_severity i"
proof -
  have tools: "\<And>kept. dedupe e [] (analyzePythonWithPylint e fs @ analyzePythonWithPyflakes e fs) = Some kept
          \<Longrightarrow> \<forall>i\<in>set kept. valid_severity i"
    using set_dedupe [of e "[]" "analyzePythonWithPylint e fs @ analyzePythonWithPyflakes e fs"]
      valid_pylint [of e fs] valid_pyflakes [of e fs] by fastforce
  show ?thesis
    using assms valid_analyzeFilesWithGemini [of e fs "''python''" w] tools
    by (auto simp: analyzePythonFiles_def Let_def split: prod.splits if_splits option.splits)
qed

lemma valid_combined_issues: "\<forall>i\<in>set (combined_issues e). valid_severity i"
proof -
  obtain pr w1 where a: "(if length (findFiles e [''.py'']) > 0
        then analyzePythonFiles e (findFiles e [''.py'']) world0 else (Inr [], world0)) = (pr, w1)"
    by (cases "(if length (findFiles e [''.py'']) > 0
        then analyzePythonFiles e (findFiles e [''.py'']) world0 else (Inr [], world0))")
  show ?thesis
  proof (cases pr)
    case (Inl err)
    with a show ?thesis
      by (auto simp: combined_issues_def Let_def split: if_splits)
  next
    case (Inr py)
    obtain b w2 where b: "(if length (findFiles e [''.js'', ''.jsx'', ''.mjs'']) > 0
          then analyzeJavaScriptFiles e (findFiles e [''.js'', ''.jsx'', ''.mjs'']) w1 else ([], w1)) = (b, w2)"
      by (cases "(if length (findFiles e [''.js'', ''.jsx'', ''.mjs'']) > 0
          then analyzeJavaScriptFiles e (findFiles e [''.js'', ''.jsx'', ''.mjs'']) w1 else ([], w1))")
    obtain c w3 where c: "(if length (findFiles e [''.ts'', ''.tsx'']) > 0
          then analyzeTypeScriptFiles e (findFiles e [''.ts'', ''.tsx'']) w2 else ([], w2)) = (c, w3)"
      by (cases "(if length (findFiles e [''.ts'', ''.tsx'']) > 0
          then analyzeTypeScriptFiles e (findFiles e [''.ts'', ''.tsx'']) w2 else ([], w2))")
    have va: "\<forall>i\<in>set py. valid_severity i"
      using a Inr valid_analyzePythonFiles [of e "findFiles e [''.py'']" world0 py]
      by (auto split: if_splits)
    have vb: "\<forall>i\<in>set b. valid_severity i"
      using b valid_analyzeFilesWithGemini [of e "findFiles e [''.js'', ''.jsx'', ''.mjs'']" "''javascript''" w1]
      by (auto simp: analyzeJavaScriptFiles_def split: if_splits)
    have vc: "\<forall>i\<in>set c. valid_severity i"
      using c valid_analyzeFilesWithGemini [of e "findFiles e [''.ts'', ''.tsx'']" "''typescript''" w2]
      by (auto simp: analyzeTypeScriptFiles_def split: if_splits)
    have "combined_issues e = py @ b @ c"
      using a b c Inr by (auto simp: combined_issues_def Let_def split: if_splits)
    with va vb vc show ?thesis by auto
  qed
qed

lemma analyzeCode_throws:
  assumes "\<not> prepare_workspace e z u"
  shows "analyzeCode e rid z u m = Inl (Err None)"
  using assms by (simp add: analyzeCode_def)

lemma analyzeCode_result:
  assumes "analyzeCode e rid z u m = Inr r"
  shows "issues r = (if m = ''quick''
                     then filter (\<lambda>i. severity i = ''critical'' \<or> severity i = ''major'') (combined_issues e)
                     else combined_issues e)
       \<and> issues_count (summary r) =
           \<lparr>critical = length (filter (\<lambda>i. severity i = ''critical'') (issues r)),
            major = length (filter (\<lambda>i. severity i = ''major'') (issues r)),
            minor = length (filter (\<lambda>i. severity i = ''minor'') (issues r))\<rparr>"
  using assms
  by (auto simp: analyzeCode_def combined_issues_def Let_def split: if_splits prod.splits sum.splits)

lemma count_by_severity:
  "\<forall>i\<in>set xs. valid_severity i \<Longrightarrow>
   length (filter (\<lambda>i. severity i = ''critical'') xs) + length (filter (\<lambda>i. severity i = ''major'') xs)
     + length (filter (\<lambda>i. severity i = ''minor'') xs) = length xs"
  by (induction xs) (auto simp: valid_severity_def)

lemma retry_sample_env2:
  "retryWithBackoff (call_provider sample_env) 3 2000 \<lparr>calls = 2, slept = [2000]\<rparr> =
     (Inr sample_reply, \<lparr>calls = 3, slept = [2000]\<rparr>)"
  apply (simp add: retryWithBackoff_def)
  apply (subst retry_loop.simps)
  apply (simp add: call_provider_def sample_env_def)
  done

lemma clean_refactored_sample: "clean_refactored ''[...]'' = ''[...]''"
  by (simp add: clean_refactored_def strip_open_fence_def strip_close_fence_def trim_def is_space_def)

lemma summary_lines_sample: "summary_lines sample_env xs \<noteq> None"
proof (induction xs)
  case Nil
  show ?case by simp
next
  case (Cons x xs)
  have "\<And>v. ToString sample_env v = Some ''v''" by (simp add: sample_env_def)
  with Cons show ?case by auto
qed

lemma refactorFile_sample:
  "refactorFileWithGemini sample_env c found p \<lparr>calls = 2, slept = [2000]\<rparr> =
     (Inr ''[...]'', \<lparr>calls = 3, slept = [2000]\<rparr>)"
proof -
  have "ai sample_env" by (simp add: sample_env_def)
  moreover have "issuesSummary sample_env found p \<noteq> None"
    using summary_lines_sample by (simp add: issuesSummary_def Let_def)
  ultimately show ?thesis
    by (auto simp: refactorFileWithGemini_def retry_sample_env2 sample_reply_def response_text_def
          clean_refactored_sample)
qed

lemma refactorFiles_sample:
  "refactorFiles sample_env [''a.py''] found \<lparr>calls = 2, slept = [2000]\<rparr> =
     ([\<lparr>rf_file = ''a.py'', original = ''x = 1'', refactored = ''[...]''\<rparr>], \<lparr>calls = 3, slept = [2000]\<rparr>)"
proof -
  have "readFile sample_env ''a.py'' = Some ''x = 1''" by (simp add: sample_env_def)
  then show ?thesis by (simp add: refactorFile_sample)
qed

lemma analyzePythonFiles_sample:
  "analyzePythonFiles sample_env [''a.py''] world0 =
     (Inr [\<lparr>severity = ''critical'', i_file = ''a.py'', line = JNum 3, message = JStr ''Unknown issue'',
        rule = JStr ''python/gemini-detected'', suggestion = Some (JStr [])\<rparr>,
       \<lparr>severity = ''minor'', i_file = ''a.py'', line = JNum 1, message = JStr ''Unknown issue'',
        rule = JStr ''python/gemini-detected'', suggestion = Some (JStr [])\<rparr>],
      \<lparr>calls = 2, slept = [2000]\<rparr>)"
proof -
  have "readFile sample_env ''a.py'' = Some ''x = 1''" "ai sample_env"
    by (simp_all add: sample_env_def)
  then show ?thesis
    by (simp add: analyzePythonFiles_def analyzeFile_sample_env)
qed

lemma analyzeCode_sample_quick:
  "analyzeCode sample_env ''req-0123abcd'' (Some ''PK'') None ''quick'' =
     Inr \<lparr>res_request_id = ''req-0123abcd'', res_status = ''completed'',
          summary = \<lparr>languages = [''python''], total_files_analyzed = 1,
                     issues_count = \<lparr>critical = 1, major = 0, minor = 0\<rparr>\<rparr>,
          issues = [\<lparr>severity = ''critical'', i_file = ''a.py'', line = JNum 3,
                     message = JStr ''Unknown issue'', rule = JStr ''python/gemini-detected'',
                     suggestion = Some (JStr [])\<rparr>],
          patches = [],
          refactoredFiles = [\<lparr>rf_file = ''a.py'', original = ''x = 1'', refactored = ''[...]''\<rparr>]\<rparr>"
proof -
  have f: "findFiles sample_env [''.py''] = [''a.py'']"
    "findFiles sample_env [''.js'', ''.jsx'', ''.mjs''] = []"
    "findFiles sample_env [''.ts'', ''.tsx''] = []"
    "prepare_workspace sample_env (Some ''PK'') None"
    by (simp_all add: sample_env_def prepare_workspace_def)
  show ?thesis
    by (simp add: analyzeCode_def f analyzePythonFiles_sample refactorFiles_sample del: refactorFiles.simps)
qed

lemma analyzeCode_sample_standard:
  "analyzeCode sample_env ''req-0123abcd'' (Some ''PK'') None ''standard'' =
     Inr \<lparr>res_request_id = ''req-0123abcd'', res_status = ''completed'',
          summary = \<lparr>languages = [''python''], total_files_analyzed = 1,
                     issues_count = \<lparr>critical = 1, major = 0, minor = 1\<rparr>\<rparr>,
          issues = [\<lparr>severity = ''critical'', i_file = ''a.py'', line = JNum 3,
                     message = JStr ''Unknown issue'', rule = JStr ''python/gemini-detected'',
                     suggestion = Some (JStr [])\<rparr>,
                    \<lparr>severity = ''minor'', i_file = ''a.py'', line = JNum 1,
                     message = JStr ''Unknown issue'', rule = JStr ''python/gemini-detected'',
                     suggestion = Some (JStr [])\<rparr>],
          patches = [],
          refactoredFiles = [\<lparr>rf_file = ''a.py'', original = ''x = 1'', refactored = ''[...]''\<rparr>]\<rparr>"
proof -
  have f: "findFiles sample_env [''.py''] = [''a.py'']"
    "findFiles sample_env [''.js'', ''.jsx'', ''.mjs''] = []"
    "findFiles sample_env [''.ts'', ''.tsx''] = []"
    "prepare_workspace sample_env (Some ''PK'') None"
    by (simp_all add: sample_env_def prepare_workspace_def)
  show ?thesis
    by (simp add: analyzeCode_def f analyzePythonFiles_sample refactorFiles_sample del: refactorFiles.simps)
qed

text \<open>
  C5. In quick mode the issues of a result returned by \<open>analyzeCode\<close> are the combined
  issues of all languages, as the per-language analyzers returned them, with one filter
  applied that keeps critical and major; so no issue of the result is minor, and the
  minor count is zero. The per-language analyzers are not given the mode.
\<close>

theorem quick_mode_drops_minor:
  assumes "analyzeCode e rid z u ''quick'' = Inr r"
  shows "issues r = filter (\<lambda>i. severity i = ''critical'' \<or> severity i = ''major'') (combined_issues e)
       \<and> (\<forall>i\<in>set (issues r). severity i \<noteq> ''minor'')
       \<and> minor (issues_count (summary r)) = 0"
proof -
  from analyzeCode_result [OF assms]
  have a: "issues r = filter (\<lambda>i. severity i = ''critical'' \<or> severity i = ''major'') (combined_issues e)"
    and b: "minor (issues_count (summary r)) = length (filter (\<lambda>i. severity i = ''minor'') (issues r))"
    by simp_all
  from a have c: "\<forall>i\<in>set (issues r). severity i \<noteq> ''minor''" by auto
  then have "filter (\<lambda>i. severity i = ''minor'') (issues r) = []"
    by (simp add: filter_empty_conv)
  with a b c show ?thesis by simp
qed

theorem quick_mode_drops_minor_witness:
  "issues_count (summary \<lparr>res_request_id = ''req-0123abcd'', res_status = ''completed'',
          summary = \<lparr>languages = [''python''], total_files_analyzed = 1,
                     issues_count = \<lparr>critical = 1, major = 0, minor = 0\<rparr>\<rparr>,
          issues = [\<lparr>severity = ''critical'', i_file = ''a.py'', line = JNum 3,
                     message = JStr ''Unknown issue'', rule = JStr ''python/gemini-detected'',
                     suggestion = Some (JStr [])\<rparr>],
          patches = [],
          refactoredFiles = [\<lparr>rf_file = ''a.py'', original = ''x = 1'', refactored = ''[...]''\<rparr>]\<rparr>)
     = \<lparr>critical = 1, major = 0, minor = 0\<rparr>
   \<and> [\<lparr>severity = ''critical'', i_file = ''a.py'', line = JNum 3,
                     message = JStr ''Unknown issue'', rule = JStr ''python/gemini-detected'',
                     suggestion = Some (JStr [])\<rparr>]
      = filter (\<lambda>i. severity i = ''critical'' \<or> severity i = ''major'') (combined_issues sample_env)"
  using quick_mode_drops_minor [OF analyzeCode_sample_quick] by simp

text \<open>
  C6. In every result returned by \<open>analyzeCode\<close> the critical, major and minor counts
  of the summary add up to the number of issues.
\<close>

theorem issue_counts_sum:
  assumes "analyzeCode e rid z u m = Inr r"
  shows "critical (issues_count (summary r)) + major (issues_count (summary r))
           + minor (issues_count (summary r)) = length (issues r)"
proof -
  from analyzeCode_result [OF assms]
  have a: "set (issues r) \<subseteq> set (combined_issues e)"
    and b: "issues_count (summary r) =
           \<lparr>critical = length (filter (\<lambda>i. severity i = ''critical'') (issues r)),
            major = length (filter (\<lambda>i. severity i = ''major'') (issues r)),
            minor = length (filter (\<lambda>i. severity i = ''minor'') (issues r))\<rparr>"
    by (auto split: if_splits)
  from a valid_combined_issues [of e] have "\<forall>i\<in>set (issues r). valid_severity i" by auto
  from count_by_severity [OF this] b show ?thesis by simp
qed

theorem issue_counts_sum_witness:
  "(1::nat) + 0 + 1 = length [\<lparr>severity = ''critical'', i_file = ''a.py'', line = JNum 3,
                     message = JStr ''Unknown issue'', rule = JStr ''python/gemini-detected'',
                     suggestion = Some (JStr [])\<rparr>,
                    \<lparr>severity = ''minor'', i_file = ''a.py'', line = JNum 1,
                     message = JStr ''Unknown issue'', rule = JStr ''python/gemini-detected'',
                     suggestion = Some (JStr [])\<rparr>]"
  using issue_counts_sum [OF analyzeCode_sample_standard] by simp

section \<open>The JSON report\<close>

subsection \<open>Numbers\<close>











subsection \<open>Strings\<close>








subsection \<open>One step of the parser\<close>

















subsection \<open>Parsing a serialized value\<close>





subsection \<open>Re-serialization of the report\<close>

text \<open>The serializer and the parser on small inputs.\<close>

lemma JSON_stringify_sample:
  "JSON_stringify (JObj [(''a'', JArr [JNum 1, JNull]), (''b'', JObj [])])
     = CHR ''{'' # nl # ''  '' @ dq # CHR ''a'' # dq # '': ['' @ nl # ''    1,'' @ nl # ''    null''
       @ nl # ''  ],'' @ nl # ''  '' @ dq # CHR ''b'' # dq # '': {}'' @ nl # ''}''"
  by code_simp

lemma JSON_parse_text_sample:
  "JSON_parse_text (CHR ''{'' # dq # CHR ''b'' # dq # '':1, '' @ dq # CHR ''7'' # dq # '':[true,-20],''
       @ dq # CHR ''b'' # dq # '': '' @ dq # bs # ''u0041'' @ bs # CHR ''n'' # dq # '' }'')
     = Some (JObj [(''7'', JArr [JBool True, JNum (- 20)]), (''b'', JStr (CHR ''A'' # [nl]))])"
  "JSON_parse_text ''[1,]'' = None"
  "JSON_parse_text ''01'' = None"
  "JSON_parse_text ''1.5'' = None"
  "JSON_parse_text '' [ ] '' = Some (JArr [])"
  by code_simp+








end
